theory Spec2Isabelle
  imports Complex_Main
begin

section \<open>The FWA incident model (src/models/FWAIncident.js)\<close>

text \<open>
  The Sequelize model \<^verbatim>\<open>FWAIncident\<close> is embedded as a record of the columns that the
  hooks and instance methods read or write. JavaScript numbers are modelled as exact
  reals (\<^verbatim>\<open>DECIMAL\<close> and \<^verbatim>\<open>FLOAT\<close> columns) or integers (\<^verbatim>\<open>INTEGER\<close> columns), a
  nullable column as an option, \<^verbatim>\<open>new Date()\<close> and \<^verbatim>\<open>Date.now()\<close> as a clock reading in
  milliseconds that the caller of the model passes in.
\<close>

datatype incident_type =
    FRAUD | WASTE | ABUSE | COMPLIANCE_VIOLATION | SUSPICIOUS_ACTIVITY | IDENTITY_THEFT
  | BILLING_IRREGULARITY | ENROLLMENT_MANIPULATION | BENEFIT_MISREPRESENTATION
  | UNAUTHORIZED_DISCLOSURE

datatype severity = LOW | MEDIUM | HIGH | CRITICAL

datatype status =
    REPORTED | UNDER_INVESTIGATION | SUBSTANTIATED | UNSUBSTANTIATED | REFERRED_TO_OIG
  | REFERRED_TO_CMS | RESOLVED | CLOSED

datatype detection_method =
    AI_DETECTION | MANUAL_REVIEW | EMPLOYEE_REPORT | BENEFICIARY_COMPLAINT | AUDIT_FINDING
  | SYSTEM_ALERT | ANONYMOUS_TIP | REGULATORY_NOTICE

datatype reporter_type =
    EMPLOYEE | BENEFICIARY | VENDOR | ANONYMOUS | SYSTEM | AUDITOR | REGULATOR

datatype error =
    TypeError string
  | ExternalError string
  | ValidationError string
  | DatabaseError string
  | UniqueConstraintError string

text \<open>The enumeration literals as the strings the JavaScript holds.\<close>

fun type_name :: "incident_type \<Rightarrow> string" where
  "type_name FRAUD = ''FRAUD''"
| "type_name WASTE = ''WASTE''"
| "type_name ABUSE = ''ABUSE''"
| "type_name COMPLIANCE_VIOLATION = ''COMPLIANCE_VIOLATION''"
| "type_name SUSPICIOUS_ACTIVITY = ''SUSPICIOUS_ACTIVITY''"
| "type_name IDENTITY_THEFT = ''IDENTITY_THEFT''"
| "type_name BILLING_IRREGULARITY = ''BILLING_IRREGULARITY''"
| "type_name ENROLLMENT_MANIPULATION = ''ENROLLMENT_MANIPULATION''"
| "type_name BENEFIT_MISREPRESENTATION = ''BENEFIT_MISREPRESENTATION''"
| "type_name UNAUTHORIZED_DISCLOSURE = ''UNAUTHORIZED_DISCLOSURE''"

fun status_name :: "status \<Rightarrow> string" where
  "status_name REPORTED = ''REPORTED''"
| "status_name UNDER_INVESTIGATION = ''UNDER_INVESTIGATION''"
| "status_name SUBSTANTIATED = ''SUBSTANTIATED''"
| "status_name UNSUBSTANTIATED = ''UNSUBSTANTIATED''"
| "status_name REFERRED_TO_OIG = ''REFERRED_TO_OIG''"
| "status_name REFERRED_TO_CMS = ''REFERRED_TO_CMS''"
| "status_name RESOLVED = ''RESOLVED''"
| "status_name CLOSED = ''CLOSED''"

record compliance_flags =
  cms_violation :: bool
  hipaa_violation :: bool
  false_claims_act :: bool
  anti_kickback :: bool

text \<open>
  A timeline entry is a JSON object; each shape the source builds uses some of these keys
  and leaves the others absent (\<open>None\<close>).
\<close>

record timeline_entry =
  action :: string
  timestamp :: nat
  user :: "string option"
  reason :: "string option"
  new_severity :: "severity option"
  case_number :: "string option"
  changes :: "string list option"
  details :: "(incident_type \<times> detection_method) option"

record incident =
  incident_id :: nat
  incident_number :: "string option"
  incident_type :: incident_type
  severity :: severity
  status :: status
  detection_method :: detection_method
  reporter_type :: reporter_type
  reporter_id :: "string option"
  affected_count :: "int option"
  financial_impact :: "real option"
  investigation_started :: "nat option"
  investigation_completed :: "nat option"
  regulatory_reported :: bool
  regulatory_report_date :: "nat option"
  oig_referral :: bool
  oig_case_number :: "string option"
  ai_confidence_score :: "real option"
  risk_score :: "int option"
  compliance_impact :: "compliance_flags option"
  timeline :: "timeline_entry list option"

subsection \<open>calculateRiskScore\<close>

definition severityScores :: "severity \<Rightarrow> int" where
  "severityScores s = (case s of LOW \<Rightarrow> 10 | MEDIUM \<Rightarrow> 25 | HIGH \<Rightarrow> 50 | CRITICAL \<Rightarrow> 75)"

text \<open>\<^verbatim>\<open>typeScores[incident.incident_type] || 10\<close>: the table has seven keys.\<close>

definition typeScores :: "incident_type \<Rightarrow> int option" where
  "typeScores t = (case t of
       FRAUD \<Rightarrow> Some 25
     | IDENTITY_THEFT \<Rightarrow> Some 20
     | UNAUTHORIZED_DISCLOSURE \<Rightarrow> Some 20
     | BILLING_IRREGULARITY \<Rightarrow> Some 15
     | ENROLLMENT_MANIPULATION \<Rightarrow> Some 15
     | ABUSE \<Rightarrow> Some 10
     | WASTE \<Rightarrow> Some 5
     | _ \<Rightarrow> None)"

text \<open>
  A comparison \<^verbatim>\<open>x > c\<close> of JavaScript is false when \<^verbatim>\<open>x\<close> is \<^verbatim>\<open>undefined\<close> and compares
  0 when it is \<^verbatim>\<open>null\<close>; both give false against the positive constants used here.
\<close>

definition js_gt :: "'a::linorder option \<Rightarrow> 'a \<Rightarrow> bool" where
  "js_gt x c = (case x of None \<Rightarrow> False | Some v \<Rightarrow> v > c)"

definition calculateRiskScore :: "incident \<Rightarrow> int" where
  "calculateRiskScore incident =
    (let score = 0;
         score = score + severityScores (severity incident);
         score = score + (case typeScores (incident_type incident) of
                            None \<Rightarrow> 10 | Some v \<Rightarrow> if v = 0 then 10 else v);
         score = (if js_gt (financial_impact incident) 100000 then score + 25
                  else if js_gt (financial_impact incident) 10000 then score + 15
                  else if js_gt (financial_impact incident) 1000 then score + 5
                  else score);
         score = (if js_gt (affected_count incident) 100 then score + 20
                  else if js_gt (affected_count incident) 10 then score + 10
                  else if js_gt (affected_count incident) 1 then score + 5
                  else score);
         violations = (case compliance_impact incident of
                         None \<Rightarrow> \<lparr>cms_violation = False, hipaa_violation = False,
                                  false_claims_act = False, anti_kickback = False\<rparr>
                       | Some v \<Rightarrow> v);
         score = (if false_claims_act violations then score + 30 else score);
         score = (if anti_kickback violations then score + 25 else score);
         score = (if cms_violation violations then score + 20 else score);
         score = (if hipaa_violation violations then score + 15 else score)
     in min 100 score)"

subsection \<open>The hooks\<close>

text \<open>\<^verbatim>\<open>String.prototype.toUpperCase\<close> on the ASCII letters of the enumeration names.\<close>

definition upper_char :: "char \<Rightarrow> char" where
  "upper_char c =
     (if 97 \<le> (of_char c :: nat) \<and> (of_char c :: nat) \<le> 122
      then char_of ((of_char c :: nat) - 32) else c)"

definition toUpperCase :: "string \<Rightarrow> string" where
  "toUpperCase s = map upper_char s"

text \<open>\<^verbatim>\<open>Number.prototype.toString(36)\<close> on a non-negative integer.\<close>

definition digit36 :: "nat \<Rightarrow> char" where
  "digit36 d = ''0123456789abcdefghijklmnopqrstuvwxyz'' ! d"

function toString36 :: "nat \<Rightarrow> string" where
  "toString36 n = (if n < 36 then [digit36 n] else toString36 (n div 36) @ [digit36 (n mod 36)])"
  by pat_completeness auto
termination
  by (relation "measure (\<lambda>n. n)") auto

declare toString36.simps [simp del]

definition timeline_or_empty :: "incident \<Rightarrow> timeline_entry list" where
  "timeline_or_empty incident = (case timeline incident of None \<Rightarrow> [] | Some es \<Rightarrow> es)"

text \<open>\<^verbatim>\<open>incident.reporter_id || 'SYSTEM'\<close>: the empty string is falsy as well.\<close>

definition reporter_or_system :: "incident \<Rightarrow> string" where
  "reporter_or_system incident =
     (case reporter_id incident of None \<Rightarrow> ''SYSTEM''
      | Some r \<Rightarrow> if r = [] then ''SYSTEM'' else r)"

definition beforeCreate :: "nat \<Rightarrow> incident \<Rightarrow> incident" where
  "beforeCreate now incident =
    (let prefix = toUpperCase (take 3 (type_name (incident_type incident)));
         timestamp = toUpperCase (toString36 now);
         incident = incident\<lparr>incident_number := Some (prefix @ ''-'' @ timestamp)\<rparr>;
         incident = incident\<lparr>timeline := Some
           [\<lparr>action = ''REPORTED'', timestamp = now,
             user = Some (reporter_or_system incident), reason = None,
             new_severity = None, case_number = None, changes = None,
             details = Some (incident_type incident, detection_method incident)\<rparr>]\<rparr>
     in incident\<lparr>risk_score := Some (calculateRiskScore incident)\<rparr>)"

text \<open>
  \<^verbatim>\<open>incident.changed()\<close>: the names of the attributes whose current value differs from the
  value the instance was loaded with. The list is given in the order of the model
  definition, where Sequelize keeps the order of the assignments, and the values are
  compared as values of the record, where Sequelize compares a stored \<^verbatim>\<open>DECIMAL\<close>
  string with an assigned number; the statements below use only whether the list is empty
  and whether it contains the status.
\<close>

definition attribute_diffs :: "incident \<Rightarrow> incident \<Rightarrow> (string \<times> bool) list" where
  "attribute_diffs prev cur =
     [(''id'', incident_id prev \<noteq> incident_id cur),
      (''incident_number'', incident_number prev \<noteq> incident_number cur),
      (''incident_type'', incident_type prev \<noteq> incident_type cur),
      (''severity'', severity prev \<noteq> severity cur),
      (''status'', status prev \<noteq> status cur),
      (''detection_method'', detection_method prev \<noteq> detection_method cur),
      (''reporter_type'', reporter_type prev \<noteq> reporter_type cur),
      (''reporter_id'', reporter_id prev \<noteq> reporter_id cur),
      (''affected_count'', affected_count prev \<noteq> affected_count cur),
      (''financial_impact'', financial_impact prev \<noteq> financial_impact cur),
      (''investigation_started'', investigation_started prev \<noteq> investigation_started cur),
      (''investigation_completed'',
         investigation_completed prev \<noteq> investigation_completed cur),
      (''regulatory_reported'', regulatory_reported prev \<noteq> regulatory_reported cur),
      (''regulatory_report_date'', regulatory_report_date prev \<noteq> regulatory_report_date cur),
      (''oig_referral'', oig_referral prev \<noteq> oig_referral cur),
      (''oig_case_number'', oig_case_number prev \<noteq> oig_case_number cur),
      (''ai_confidence_score'', ai_confidence_score prev \<noteq> ai_confidence_score cur),
      (''risk_score'', risk_score prev \<noteq> risk_score cur),
      (''compliance_impact'', compliance_impact prev \<noteq> compliance_impact cur),
      (''timeline'', timeline prev \<noteq> timeline cur)]"

definition changed :: "incident \<Rightarrow> incident \<Rightarrow> string list" where
  "changed prev cur = map fst (filter snd (attribute_diffs prev cur))"

text \<open>
  The hook reads the clock up to three times; the model passes one reading \<open>now\<close> for all
  of them.
\<close>

definition beforeUpdate :: "string list \<Rightarrow> nat \<Rightarrow> incident \<Rightarrow> incident" where
  "beforeUpdate chs now incident =
    (if chs \<noteq> [] then
       (let timelineEntry = \<lparr>action = ''UPDATED'', timestamp = now, user = None,
                              reason = None, new_severity = None, case_number = None,
                              changes = Some chs, details = None\<rparr>;
            timelineEntry = (if ''status'' \<in> set chs
               then timelineEntry\<lparr>action := ''STATUS_CHANGED_TO_'' @ status_name (status incident)\<rparr>
               else timelineEntry);
            incident = (if ''status'' \<in> set chs \<and> status incident = UNDER_INVESTIGATION
                           \<and> investigation_started incident = None
               then incident\<lparr>investigation_started := Some now\<rparr> else incident);
            incident = (if ''status'' \<in> set chs
                           \<and> status incident \<in> {RESOLVED, CLOSED, UNSUBSTANTIATED}
                           \<and> investigation_completed incident = None
               then incident\<lparr>investigation_completed := Some now\<rparr> else incident);
            incident = incident\<lparr>timeline := Some (timeline_or_empty incident @ [timelineEntry])\<rparr>
        in incident\<lparr>risk_score := Some (calculateRiskScore incident)\<rparr>)
     else incident)"

text \<open>
  \<^verbatim>\<open>instance.save()\<close> of a persisted instance: the \<^verbatim>\<open>beforeUpdate\<close> hook runs on the
  instance, then the row is written. \<open>db\<close> is the outcome of the write by the persistence
  layer (\<open>None\<close> when it succeeds); a failed write rejects the promise.
\<close>

definition save :: "error option \<Rightarrow> incident \<Rightarrow> incident \<Rightarrow> nat \<Rightarrow> error + incident" where
  "save db prev this now =
     (let this = beforeUpdate (changed prev this) now this
      in case db of Some e \<Rightarrow> Inl e | None \<Rightarrow> Inr this)"

subsection \<open>Instance methods\<close>

text \<open>
  \<open>this\<close> is the instance as loaded; \<open>t\<close> is the clock reading inside the method and
  \<open>t'\<close> the one inside the hook that \<^verbatim>\<open>save\<close> runs.
\<close>

definition escalate ::
  "error option \<Rightarrow> string \<Rightarrow> string \<Rightarrow> nat \<Rightarrow> nat \<Rightarrow> incident \<Rightarrow> error + incident" where
  "escalate db rsn userId t t' this =
    (let this1 = this\<lparr>severity := (if severity this = LOW then MEDIUM
                                     else if severity this = MEDIUM then HIGH else CRITICAL)\<rparr>;
         timelineEntry = \<lparr>action = ''ESCALATED'', timestamp = t, user = Some userId,
                           reason = Some rsn, new_severity = Some (severity this1),
                           case_number = None, changes = None, details = None\<rparr>;
         this2 = this1\<lparr>timeline := Some (timeline_or_empty this1 @ [timelineEntry])\<rparr>
     in save db this this2 t')"

definition referToOIG ::
  "error option \<Rightarrow> string \<Rightarrow> string \<Rightarrow> nat \<Rightarrow> nat \<Rightarrow> incident \<Rightarrow> error + incident" where
  "referToOIG db caseNumber userId t t' this =
    (let this1 = this\<lparr>oig_referral := True, oig_case_number := Some caseNumber,
                       regulatory_reported := True, regulatory_report_date := Some t,
                       status := REFERRED_TO_OIG\<rparr>;
         timelineEntry = \<lparr>action = ''REFERRED_TO_OIG'', timestamp = t, user = Some userId,
                           reason = None, new_severity = None,
                           case_number = Some caseNumber, changes = None, details = None\<rparr>;
         this2 = this1\<lparr>timeline := Some (timeline_or_empty this1 @ [timelineEntry])\<rparr>
     in save db this this2 t')"

subsection \<open>The table of incidents and the alert path\<close>

text \<open>
  The state outside an instance: the rows of table \<^verbatim>\<open>fwa_incidents\<close> (with its unique indexes
  on the primary key and on \<^verbatim>\<open>incident_number\<close>) and the record of the invocations of the
  critical alert path \<^verbatim>\<open>autoEscalateIncident\<close>.
\<close>

record world =
  fwa_incidents :: "incident list"
  critical_alerts :: "incident list"

text \<open>
  What the columns of the table do to the values of an instance. Column
  \<^verbatim>\<open>financial_impact\<close> is \<^verbatim>\<open>DECIMAL(15, 2)\<close>: the database rounds the number to two
  decimals, half away from zero, and refuses a result of more than thirteen digits before
  the point. Columns \<^verbatim>\<open>affected_count\<close> and \<^verbatim>\<open>risk_score\<close> are 32-bit integers.
\<close>

definition round2 :: "real \<Rightarrow> real" where
  "round2 x =
     (if x < 0 then - (of_int \<lfloor>- x * 100 + 1 / 2\<rfloor> / 100)
      else of_int \<lfloor>x * 100 + 1 / 2\<rfloor> / 100)"

definition int32 :: "int option \<Rightarrow> bool" where
  "int32 n = (case n of None \<Rightarrow> True | Some i \<Rightarrow> - 2147483648 \<le> i \<and> i \<le> 2147483647)"

definition store_row :: "incident \<Rightarrow> error + incident" where
  "store_row incident =
    (if \<not> int32 (affected_count incident) \<or> \<not> int32 (risk_score incident)
     then Inl (DatabaseError ''integer out of range'')
     else if (case financial_impact incident of
                None \<Rightarrow> False | Some x \<Rightarrow> 10 ^ 13 \<le> \<bar>round2 x\<bar>)
     then Inl (DatabaseError ''numeric field overflow'')
     else Inr (incident\<lparr>financial_impact := map_option round2 (financial_impact incident)\<rparr>))"

text \<open>
  \<^verbatim>\<open>FWAIncident.create\<close>: Sequelize validates the instance before it runs the
  \<^verbatim>\<open>beforeCreate\<close> hook, and column \<^verbatim>\<open>incident_number\<close> has \<^verbatim>\<open>allowNull: false\<close> and no
  default, so a caller has to supply a number, which the hook then replaces. The other
  columns without a default that may not be null are always present in the record
  (\<^verbatim>\<open>incident_type\<close>, \<^verbatim>\<open>detection_method\<close>, \<^verbatim>\<open>reporter_type\<close>) or not part of it
  (\<^verbatim>\<open>incident_date\<close>, \<^verbatim>\<open>description\<close>, taken as supplied). After the hook the row is
  inserted, and the instance that \<^verbatim>\<open>create\<close> returns holds the values of the stored row
  (the insert of the Postgres dialect returns them).
\<close>

definition create :: "nat \<Rightarrow> incident \<Rightarrow> world \<Rightarrow> (error + incident) \<times> world" where
  "create now vals w =
    (if incident_number vals = None
     then (Inl (ValidationError
             ''notNull Violation: FWAIncident.incident_number cannot be null''), w)
     else
      (let incident = beforeCreate now vals
       in case store_row incident of
            Inl err \<Rightarrow> (Inl err, w)
          | Inr row \<Rightarrow>
              if incident_id row \<in> incident_id ` set (fwa_incidents w)
              then (Inl (UniqueConstraintError ''id''), w)
              else if incident_number row \<in> incident_number ` set (fwa_incidents w)
              then (Inl (UniqueConstraintError ''incident_number''), w)
              else (Inr row, w\<lparr>fwa_incidents := fwa_incidents w @ [row]\<rparr>)))"


section \<open>The detection service (services/fwaDetection)\<close>

record pattern =
  category :: "string option"
  pattern_type :: "string option"
  pattern_source :: "string option"
  match_count :: "nat option"
  p_confidence :: real

record indicator =
  ind_type :: string
  ind_category :: "string option"
  ind_confidence :: real
  ind_description :: string

record recommendation =
  priority :: string
  rec_action :: string
  rec_description :: string

record call_metadata =
  callId :: "string option"
  agentId :: "string option"
  userId :: "string option"

record analysis_metadata = call_metadata +
  analyzedAt :: nat
  textLength :: nat

record analysis =
  confidence :: real
  riskLevel :: severity
  patterns :: "pattern list"
  recommendations :: "recommendation list"

record call_analysis = analysis +
  indicators :: "indicator list"
  metadata :: analysis_metadata

record classification =
  c_confidence :: real
  c_class :: string

text \<open>
  What the service takes from outside the repository: the string methods and regular
  expression engine of JavaScript, and the tokenizer, sentiment analyser and stemmer of
  package \<^verbatim>\<open>natural\<close>. A call of the package may throw. \<open>patternMatcher_loaded\<close> says
  whether \<^verbatim>\<open>initializeModels\<close> has stored the pattern matcher.
\<close>

record env =
  str_toLowerCase :: "string \<Rightarrow> string"
  str_replace_nonword :: "string \<Rightarrow> string"
  str_replace_spaces :: "string \<Rightarrow> string"
  str_trim :: "string \<Rightarrow> string"
  regex_test :: "string \<Rightarrow> string \<Rightarrow> bool"
  tokenize :: "string \<Rightarrow> error + string list"
  getSentiment :: "string list \<Rightarrow> error + real"
  stem :: "string \<Rightarrow> error + string"
  patternMatcher_loaded :: bool

definition fraudKeywords :: "string list" where
  "fraudKeywords =
    [''fake'', ''false'', ''fraudulent'', ''scam'', ''cheat'', ''steal'', ''unauthorized'',
     ''identity theft'', ''stolen'', ''forged'', ''duplicate'', ''ghost'', ''phantom'',
     ''kickback'', ''bribe'', ''corruption'', ''manipulation'', ''deceive'']"

text \<open>The regular expressions by their source text; \<open>ws\<close> is \<^verbatim>\<open>\s+\<close>. All carry flag \<^verbatim>\<open>i\<close>.\<close>

definition ws :: string where
  "ws = [CHR 0x5C, CHR ''s'', CHR ''+'']"

definition suspiciousPatterns :: "(string \<times> string list) list" where
  "suspiciousPatterns =
    [(''billing'',
       [''billing'' @ ws @ ''for'' @ ws @ ''services?'' @ ws @ ''not'' @ ws @ ''provided'',
        ''up'' @ [CHR 0x5C] @ ''s*cod(ing|ed)'',
        ''ghost'' @ ws @ ''patient'',
        ''phantom'' @ ws @ ''billing'',
        ''duplicate'' @ ws @ ''claims?'']),
     (''enrollment'',
       [''unauthorized'' @ ws @ ''enrollment'',
        ''enrollment'' @ ws @ ''without'' @ ws @ ''consent'',
        ''fake'' @ ws @ ''beneficiary'',
        ''identity'' @ ws @ ''theft'',
        ''stolen'' @ ws @ ''medicare'' @ ws @ ''number'']),
     (''benefits'',
       [''misrepresent(ed|ing)'' @ ws @ ''benefits?'',
        ''false'' @ ws @ ''information'' @ ws @ ''about'',
        ''exaggerat(ed|ing)'' @ ws @ ''coverage'',
        ''misleading'' @ ws @ ''marketing''])]"

definition riskThresholds :: "severity \<Rightarrow> real" where
  "riskThresholds l = (case l of LOW \<Rightarrow> 0.3 | MEDIUM \<Rightarrow> 0.6 | HIGH \<Rightarrow> 0.8 | CRITICAL \<Rightarrow> 0.9)"

text \<open>\<^verbatim>\<open>String.prototype.includes\<close>.\<close>

fun starts_with :: "string \<Rightarrow> string \<Rightarrow> bool" where
  "starts_with s [] = True"
| "starts_with [] (k # ks) = False"
| "starts_with (c # cs) (k # ks) = (c = k \<and> starts_with cs ks)"

fun str_includes :: "string \<Rightarrow> string \<Rightarrow> bool" where
  "str_includes [] k = (k = [])"
| "str_includes (c # cs) k = (starts_with (c # cs) k \<or> str_includes cs k)"

subsection \<open>The pattern matcher\<close>

definition analyzeText :: "env \<Rightarrow> string \<Rightarrow> pattern list" where
  "analyzeText e text =
    (let lowerText = str_toLowerCase e text;
         patterns = concat (map (\<lambda>(cat, regexes).
            map (\<lambda>regex. \<lparr>category = Some cat, pattern_type = None,
                            pattern_source = Some regex, match_count = None,
                            p_confidence = 0.85\<rparr>)
              (filter (\<lambda>regex. regex_test e regex text) regexes)) suspiciousPatterns);
         fraudKeywordCount = length (filter (\<lambda>keyword. str_includes lowerText keyword) fraudKeywords)
     in if fraudKeywordCount > 0
        then patterns @ [\<lparr>category = Some ''keyword_match'', pattern_type = None,
                           pattern_source = None, match_count = Some fraudKeywordCount,
                           p_confidence = min 0.9 (real fraudKeywordCount * 0.2)\<rparr>]
        else patterns)"

subsection \<open>Helper methods\<close>

definition preprocessText :: "env \<Rightarrow> string \<Rightarrow> string" where
  "preprocessText e text =
     str_trim e (str_replace_spaces e (str_replace_nonword e (str_toLowerCase e text)))"

text \<open>Mapping a function that may throw over an array stops at the first exception.\<close>

fun map_throwing :: "('a \<Rightarrow> error + 'b) \<Rightarrow> 'a list \<Rightarrow> error + 'b list" where
  "map_throwing f [] = Inr []"
| "map_throwing f (x # xs) =
     (case f x of
        Inl err \<Rightarrow> Inl err
      | Inr y \<Rightarrow> (case map_throwing f xs of Inl err \<Rightarrow> Inl err | Inr ys \<Rightarrow> Inr (y # ys)))"

definition extractTextFeatures :: "env \<Rightarrow> string \<Rightarrow> error + real list" where
  "extractTextFeatures e text =
    (case tokenize e text of
       Inl err \<Rightarrow> Inl err
     | Inr tokens \<Rightarrow>
        (case map_throwing (stem e) tokens of
           Inl err \<Rightarrow> Inl err
         | Inr stemmedTokens \<Rightarrow>
             Inr (map (\<lambda>index. if index < length stemmedTokens
                                then real (length (stemmedTokens ! index)) / 10 else 0)
                    [0..<100])))"

text \<open>\<^verbatim>\<open>String(idx)\<close> for an array index: its decimal digits.\<close>

function nat_to_string :: "nat \<Rightarrow> string" where
  "nat_to_string n =
     (if n < 10 then [char_of (48 + n)]
      else nat_to_string (n div 10) @ [char_of (48 + n mod 10)])"
  by pat_completeness auto
termination
  by (relation "measure (\<lambda>n. n)") auto

declare nat_to_string.simps [simp del]

text \<open>
  \<open>features\<close> is the array of 100 numbers that \<^verbatim>\<open>extractTextFeatures\<close> builds, so the
  division is by 100.
\<close>

definition classifyText :: "real list \<Rightarrow> classification" where
  "classifyText features =
    (let fraudScore =
           fold (\<lambda>(val, idx) sum.
                   sum + (if \<exists>keyword \<in> set fraudKeywords. str_includes keyword (nat_to_string idx)
                          then val else 0))
             (zip features [0..<length features]) 0
           / real (length features)
     in \<lparr>c_confidence = min 0.95 (fraudScore * 2),
         c_class = (if fraudScore > 0.5 then ''FRAUD'' else ''NORMAL'')\<rparr>)"

definition determineRiskLevel :: "real \<Rightarrow> severity" where
  "determineRiskLevel conf =
    (if conf \<ge> riskThresholds CRITICAL then CRITICAL
     else if conf \<ge> riskThresholds HIGH then HIGH
     else if conf \<ge> riskThresholds MEDIUM then MEDIUM
     else LOW)"

definition category_text :: "pattern \<Rightarrow> string" where
  "category_text p = (case category p of None \<Rightarrow> ''undefined'' | Some c \<Rightarrow> c)"

definition generateIndicators :: "pattern list \<Rightarrow> real \<Rightarrow> classification \<Rightarrow> indicator list" where
  "generateIndicators ps sentiment cls =
    map (\<lambda>p. \<lparr>ind_type = ''PATTERN_MATCH'', ind_category = category p,
               ind_confidence = p_confidence p,
               ind_description = ''Suspicious '' @ category_text p @ '' pattern detected''\<rparr>) ps
    @ (if sentiment < -0.3
       then [\<lparr>ind_type = ''SENTIMENT'', ind_category = None, ind_confidence = \<bar>sentiment\<bar>,
               ind_description = ''Negative sentiment detected in communication''\<rparr>]
       else [])
    @ (if c_class cls = ''FRAUD''
       then [\<lparr>ind_type = ''AI_CLASSIFICATION'', ind_category = None,
               ind_confidence = c_confidence cls,
               ind_description = ''AI model classified content as potentially fraudulent''\<rparr>]
       else [])"

definition generateRecommendations :: "'a analysis_scheme \<Rightarrow> recommendation list" where
  "generateRecommendations a =
    (if riskLevel a = CRITICAL
     then [\<lparr>priority = ''IMMEDIATE'', rec_action = ''Initiate emergency investigation'',
             rec_description = ''Critical risk level detected - immediate action required''\<rparr>]
     else [])
    @ (if \<exists>p \<in> set (patterns a). category p = Some ''billing''
       then [\<lparr>priority = ''HIGH'', rec_action = ''Review billing records'',
               rec_description = ''Billing irregularities detected - conduct detailed audit''\<rparr>]
       else [])
    @ (if confidence a > 0.7
       then [\<lparr>priority = ''MEDIUM'', rec_action = ''Flag for compliance review'',
               rec_description = ''High confidence FWA detection - requires human review''\<rparr>]
       else [])"

subsection \<open>analyzeCallTranscript\<close>

text \<open>
  The Redis cache maps a key to the stored value and its time to live in seconds.
  \<^verbatim>\<open>cacheHelpers.setWithExpiry\<close> catches every error of the client and returns \<^verbatim>\<open>null\<close>;
  \<open>cache_up\<close> says whether the client accepts the write.
\<close>

type_synonym cache = "string \<Rightarrow> (call_analysis \<times> nat) option"

definition setWithExpiry :: "bool \<Rightarrow> string \<Rightarrow> call_analysis \<Rightarrow> nat \<Rightarrow> cache \<Rightarrow> cache" where
  "setWithExpiry cache_up key val ttl c = (if cache_up then c(key \<mapsto> (val, ttl)) else c)"

definition callId_or_unknown :: "call_metadata \<Rightarrow> string" where
  "callId_or_unknown md =
     (case callId md of None \<Rightarrow> ''unknown'' | Some i \<Rightarrow> if i = [] then ''unknown'' else i)"

text \<open>
  The body of the \<^verbatim>\<open>try\<close> block in the order of the source; the \<^verbatim>\<open>catch\<close> block logs the
  exception and throws it again, so an exception of any step is the result of the call.
\<close>

definition analyzeCallTranscript ::
  "env \<Rightarrow> bool \<Rightarrow> string \<Rightarrow> call_metadata \<Rightarrow> nat \<Rightarrow> cache
     \<Rightarrow> (error + call_analysis) \<times> cache" where
  "analyzeCallTranscript e cache_up transcript md now c =
    (let analysis = \<lparr>confidence = 0, riskLevel = LOW, patterns = [], recommendations = [],
                      indicators = [],
                      metadata = \<lparr>callId = callId md, agentId = agentId md, userId = userId md,
                                   analyzedAt = now, textLength = length transcript\<rparr>\<rparr>;
         cleanedText = preprocessText e transcript
     in case tokenize e cleanedText of
          Inl err \<Rightarrow> (Inl err, c)
        | Inr tokens \<Rightarrow>
     (case getSentiment e tokens of
          Inl err \<Rightarrow> (Inl err, c)
        | Inr sentiment \<Rightarrow>
     (if \<not> patternMatcher_loaded e
      then (Inl (TypeError ''Cannot read properties of null (reading analyzeText)''), c)
      else
       (let ps = analyzeText e transcript;
            analysis = analysis\<lparr>patterns := ps\<rparr>;
            patternConfidence = fold (\<lambda>p acc. max acc (p_confidence p)) ps 0
        in case extractTextFeatures e cleanedText of
             Inl err \<Rightarrow> (Inl err, c)
           | Inr textFeatures \<Rightarrow>
          (let classificationResult = classifyText textFeatures;
               sentimentImpact = (if sentiment < -0.3 then 0.2 else 0);
               analysis = analysis\<lparr>confidence := min 1.0
                  (patternConfidence * 0.5 + c_confidence classificationResult * 0.4
                   + sentimentImpact)\<rparr>;
               analysis = analysis\<lparr>riskLevel := determineRiskLevel (confidence analysis)\<rparr>;
               analysis = analysis\<lparr>indicators :=
                  generateIndicators ps sentiment classificationResult\<rparr>;
               analysis = analysis\<lparr>recommendations := generateRecommendations analysis\<rparr>;
               c = setWithExpiry cache_up (''fwa_analysis:'' @ callId_or_unknown md)
                     analysis 3600 c
           in (Inr analysis, c))))))"

subsection \<open>Billing analysis\<close>

record bill =
  bill_id :: string
  amount :: real

text \<open>
  The result of \<^verbatim>\<open>Math.abs(x / y)\<close>: a division by zero gives \<^verbatim>\<open>Infinity\<close>, or \<^verbatim>\<open>NaN\<close> when
  the numerator is zero too. A comparison with \<^verbatim>\<open>NaN\<close> is false.
\<close>

datatype jsnum = Finite real | Infinity | NaN

definition js_abs_div :: "real \<Rightarrow> real \<Rightarrow> jsnum" where
  "js_abs_div x y = (if y = 0 then (if x = 0 then NaN else Infinity) else Finite \<bar>x / y\<bar>)"

definition num_gt :: "jsnum \<Rightarrow> real \<Rightarrow> bool" where
  "num_gt z c = (case z of Finite r \<Rightarrow> r > c | Infinity \<Rightarrow> True | NaN \<Rightarrow> False)"

record billing_stats =
  st_count :: nat
  mean :: real
  median :: real
  stdDev :: real
  st_min :: real
  st_max :: real

record anomaly =
  an_type :: string
  billId :: string
  an_amount :: real
  zScore :: jsnum
  an_severity :: real
  an_description :: string

record billing_analysis = analysis +
  anomalies :: "anomaly list"
  statisticalAnalysis :: "billing_stats option"

text \<open>The empty object \<^verbatim>\<open>{}\<close> returned for an empty batch is \<open>None\<close>.\<close>

definition calculateBillingStatistics :: "bill list \<Rightarrow> billing_stats option" where
  "calculateBillingStatistics billingData =
    (if length billingData = 0 then None
     else
      (let amounts = map amount billingData;
           mean = foldl (\<lambda>a b. a + b) 0 amounts / real (length amounts);
           variance = foldl (\<lambda>a b. a + (b - mean) ^ 2) 0 amounts / real (length amounts);
           stdDev = sqrt variance
       in Some \<lparr>st_count = length billingData, mean = mean,
                 median = sort amounts ! (length amounts div 2),
                 stdDev = stdDev, st_min = Min (set amounts), st_max = Max (set amounts)\<rparr>))"

text \<open>With the statistics \<^verbatim>\<open>{}\<close> the mean is \<^verbatim>\<open>undefined\<close> and every z-score is \<^verbatim>\<open>NaN\<close>.\<close>

definition zScore_of :: "billing_stats option \<Rightarrow> bill \<Rightarrow> jsnum" where
  "zScore_of stats b =
     (case stats of None \<Rightarrow> NaN | Some st \<Rightarrow> js_abs_div (amount b - mean st) (stdDev st))"

definition detectBillingAnomalies :: "bill list \<Rightarrow> billing_stats option \<Rightarrow> anomaly list" where
  "detectBillingAnomalies billingData stats =
    map (\<lambda>b. \<lparr>an_type = ''STATISTICAL_OUTLIER'', billId = bill_id b, an_amount = amount b,
               zScore = zScore_of stats b,
               an_severity = (if num_gt (zScore_of stats b) 4 then 0.9 else 0.7),
               an_description = ''Amount significantly deviates from normal pattern''\<rparr>)
      (filter (\<lambda>b. num_gt (zScore_of stats b) 3) billingData)"

text \<open>\<^verbatim>\<open>Array.prototype.indexOf\<close>: the first index of the value, \<open>None\<close> for \<^verbatim>\<open>-1\<close>.\<close>

fun indexOf :: "'a list \<Rightarrow> 'a \<Rightarrow> nat option" where
  "indexOf [] x = None"
| "indexOf (y # ys) x =
     (if y = x then Some 0 else (case indexOf ys x of None \<Rightarrow> None | Some i \<Rightarrow> Some (Suc i)))"

definition detectBillingPatterns :: "bill list \<Rightarrow> pattern list" where
  "detectBillingPatterns billingData =
    (let amounts = map amount billingData;
         duplicates = map fst (filter (\<lambda>(amt, index). indexOf amounts amt \<noteq> Some index)
                                  (zip amounts [0..<length amounts]))
     in if length duplicates > 0
        then [\<lparr>category = None, pattern_type = Some ''DUPLICATE_AMOUNTS'',
                pattern_source = None, match_count = Some (length duplicates),
                p_confidence = 0.8\<rparr>]
        else [])"

text \<open>
  The class calls \<^verbatim>\<open>this.generateBillingRecommendations\<close> but does not define it (the helper
  methods after \<^verbatim>\<open>detectBillingPatterns\<close> are left to be implemented); the model takes it
  as the parameter \<open>gen\<close>, which may throw.
\<close>

definition analyzeBillingPattern ::
  "(billing_analysis \<Rightarrow> error + recommendation list) \<Rightarrow> bill list \<Rightarrow> error + billing_analysis" where
  "analyzeBillingPattern gen billingData =
    (let stats = calculateBillingStatistics billingData;
         anoms = detectBillingAnomalies billingData stats;
         pats = detectBillingPatterns billingData;
         anomalyScore = (if length anoms > 0
            then min 1.0 (foldl (\<lambda>sum a. sum + an_severity a) 0 anoms / 10) else 0);
         patternScore = (if length pats > 0
            then min 1.0 (foldl (\<lambda>sum p. sum + p_confidence p) 0 pats / real (length pats))
            else 0);
         conf = max anomalyScore patternScore;
         analysis = \<lparr>confidence = conf, riskLevel = determineRiskLevel conf, patterns = pats,
                      recommendations = [], anomalies = anoms, statisticalAnalysis = stats\<rparr>
     in case gen analysis of
          Inl err \<Rightarrow> Inl err
        | Inr recs \<Rightarrow> Inr (analysis\<lparr>recommendations := recs\<rparr>))"

subsection \<open>Enrollment analysis\<close>

record ('v, 'i, 's) enrollment_analysis =
  e_confidence :: real
  e_riskLevel :: severity
  suspiciousActivities :: "'s list"
  consentViolations :: "'v list"
  identityRisks :: "'i list"
  e_recommendations :: "recommendation list"

text \<open>
  The four helpers that \<^verbatim>\<open>analyzeEnrollmentActivity\<close> calls are not defined by the class
  either; they are parameters that may throw. The three products and their sum are exact
  here, where the source rounds them as doubles (three consent violations give
  0.8999999999999999 there and 0.9 here); the statements below use whether the analysis
  returns, not its confidence or risk level.
\<close>

record ('d, 'v, 'i, 's) enrollment_helpers =
  detectConsentViolations :: "'d \<Rightarrow> error + 'v list"
  assessIdentityRisks :: "'d \<Rightarrow> error + 'i list"
  detectSuspiciousEnrollmentPatterns :: "'d \<Rightarrow> error + 's list"
  generateEnrollmentRecommendations ::
    "('v, 'i, 's) enrollment_analysis \<Rightarrow> error + recommendation list"

definition analyzeEnrollmentActivity ::
  "('d, 'v, 'i, 's) enrollment_helpers \<Rightarrow> 'd \<Rightarrow> error + ('v, 'i, 's) enrollment_analysis" where
  "analyzeEnrollmentActivity h enrollmentData =
    (case detectConsentViolations h enrollmentData of
       Inl err \<Rightarrow> Inl err
     | Inr cvs \<Rightarrow>
    (case assessIdentityRisks h enrollmentData of
       Inl err \<Rightarrow> Inl err
     | Inr irs \<Rightarrow>
    (case detectSuspiciousEnrollmentPatterns h enrollmentData of
       Inl err \<Rightarrow> Inl err
     | Inr sas \<Rightarrow>
      (let violationScore = real (length cvs) * 0.3;
           identityScore = real (length irs) * 0.4;
           activityScore = real (length sas) * 0.2;
           conf = min 1.0 (violationScore + identityScore + activityScore);
           analysis = \<lparr>e_confidence = conf, e_riskLevel = determineRiskLevel conf,
                        suspiciousActivities = sas, consentViolations = cvs,
                        identityRisks = irs, e_recommendations = []\<rparr>
       in case generateEnrollmentRecommendations h analysis of
            Inl err \<Rightarrow> Inl err
          | Inr recs \<Rightarrow> Inr (analysis\<lparr>e_recommendations := recs\<rparr>)))))"

subsection \<open>reportFWAIncident\<close>

definition determineIncidentType :: "'a analysis_scheme \<Rightarrow> incident_type" where
  "determineIncidentType analysisResult =
    (if \<exists>p \<in> set (patterns analysisResult). category p = Some ''billing''
     then BILLING_IRREGULARITY
     else if \<exists>p \<in> set (patterns analysisResult). category p = Some ''enrollment''
     then ENROLLMENT_MANIPULATION
     else if \<exists>p \<in> set (patterns analysisResult). category p = Some ''benefits''
     then BENEFIT_MISREPRESENTATION
     else SUSPICIOUS_ACTIVITY)"

text \<open>The risk levels and the severities are the same four strings.\<close>

definition mapRiskToSeverity :: "severity \<Rightarrow> severity" where
  "mapRiskToSeverity l =
     (case l of LOW \<Rightarrow> LOW | MEDIUM \<Rightarrow> MEDIUM | HIGH \<Rightarrow> HIGH | CRITICAL \<Rightarrow> CRITICAL)"





section \<open>The specification's formulas\<close>

text \<open>
  The risk score as the specification writes it (section 4.2), for comparison with
  \<open>calculateRiskScore\<close>. An absent financial impact or count reads as 0, absent
  compliance flags as all false.
\<close>

definition severityWeight :: "severity \<Rightarrow> int" where
  "severityWeight s = (case s of LOW \<Rightarrow> 10 | MEDIUM \<Rightarrow> 25 | HIGH \<Rightarrow> 50 | CRITICAL \<Rightarrow> 75)"

definition typeWeight :: "incident_type \<Rightarrow> int" where
  "typeWeight t =
     (if t = FRAUD then 25
      else if t = IDENTITY_THEFT \<or> t = UNAUTHORIZED_DISCLOSURE then 20
      else if t = BILLING_IRREGULARITY \<or> t = ENROLLMENT_MANIPULATION then 15
      else if t = ABUSE then 10
      else if t = WASTE then 5
      else 10)"

definition financialBand :: "real \<Rightarrow> int" where
  "financialBand x =
     (if x > 100000 then 25 else if x > 10000 then 15 else if x > 1000 then 5 else 0)"

definition affectedBand :: "int \<Rightarrow> int" where
  "affectedBand n = (if n > 100 then 20 else if n > 10 then 10 else if n > 1 then 5 else 0)"

definition flag :: "(compliance_flags \<Rightarrow> bool) \<Rightarrow> incident \<Rightarrow> int" where
  "flag f incident =
     (case compliance_impact incident of None \<Rightarrow> 0 | Some v \<Rightarrow> if f v then 1 else 0)"

definition spec_riskScore :: "incident \<Rightarrow> int" where
  "spec_riskScore incident =
     min 100
       (severityWeight (severity incident)
        + typeWeight (incident_type incident)
        + financialBand (case financial_impact incident of None \<Rightarrow> 0 | Some x \<Rightarrow> x)
        + affectedBand (case affected_count incident of None \<Rightarrow> 0 | Some n \<Rightarrow> n)
        + 30 * flag false_claims_act incident
        + 25 * flag anti_kickback incident
        + 20 * flag cms_violation incident
        + 15 * flag hipaa_violation incident)"

definition score_ok :: "incident \<Rightarrow> bool" where
  "score_ok incident = (risk_score incident = Some (spec_riskScore incident))"





text \<open>The one-level step of severity of the specification's \<^verbatim>\<open>escalate\<close>.\<close>

fun next_severity :: "severity \<Rightarrow> severity" where
  "next_severity LOW = MEDIUM"
| "next_severity MEDIUM = HIGH"
| "next_severity HIGH = CRITICAL"
| "next_severity CRITICAL = CRITICAL"

section \<open>Concrete inputs\<close>

text \<open>
  A report of a fraud with severity HIGH, a financial impact of 150000, 150 affected
  beneficiaries and the False Claims Act flag, whose caller sets a placeholder for the
  incident number and the risk score 7.
\<close>

definition example_report :: incident where
  "example_report =
    \<lparr>incident_id = 1, incident_number = Some ''PENDING-1'', incident_type = FRAUD,
     severity = HIGH,
     status = REPORTED, detection_method = MANUAL_REVIEW, reporter_type = EMPLOYEE,
     reporter_id = Some ''emp-17'', affected_count = Some 150,
     financial_impact = Some 150000, investigation_started = None,
     investigation_completed = None, regulatory_reported = False,
     regulatory_report_date = None, oig_referral = False, oig_case_number = None,
     ai_confidence_score = None, risk_score = Some 7,
     compliance_impact = Some \<lparr>cms_violation = False, hipaa_violation = False,
        false_claims_act = True, anti_kickback = False\<rparr>,
     timeline = Some []\<rparr>"

text \<open>
  A report of a waste with severity LOW whose financial impact, 1000.004, has three
  decimals.
\<close>

definition small_report :: incident where
  "small_report = example_report\<lparr>incident_type := WASTE, severity := LOW,
     financial_impact := Some 1000.004, affected_count := Some 0,
     compliance_impact := None\<rparr>"

text \<open>The same report with an impact of two decimals, 1000.50.\<close>

definition cents_report :: incident where
  "cents_report = small_report\<lparr>financial_impact := Some 1000.5\<rparr>"

text \<open>The empty table.\<close>

definition empty_world :: world where
  "empty_world = \<lparr>fwa_incidents = [], critical_alerts = []\<rparr>"

definition example_incident :: incident where
  "example_incident = beforeCreate 1000 example_report"

text \<open>The same incident once resolved, and with each of two severities.\<close>

definition example_resolved :: incident where
  "example_resolved = example_incident\<lparr>status := RESOLVED, investigation_completed := Some 1500\<rparr>"

definition example_low :: incident where
  "example_low = example_incident\<lparr>severity := LOW, risk_score := Some 100\<rparr>"

definition example_critical :: incident where
  "example_critical = example_incident\<lparr>severity := CRITICAL\<rparr>"



text \<open>
  An environment in which every library call succeeds: no regular expression matches,
  the tokenizer splits at nothing, the sentiment is neutral.
\<close>

definition example_env :: env where
  "example_env =
    \<lparr>str_toLowerCase = (\<lambda>s. s), str_replace_nonword = (\<lambda>s. s),
     str_replace_spaces = (\<lambda>s. s), str_trim = (\<lambda>s. s),
     regex_test = (\<lambda>regex text. False),
     tokenize = (\<lambda>s. Inr [s]), getSentiment = (\<lambda>tokens. Inr 0),
     stem = (\<lambda>token. Inr token), patternMatcher_loaded = True\<rparr>"

text \<open>
  An environment for a hostile call: the expression for a ghost patient matches and the
  sentiment is -0.5.
\<close>

definition hostile_env :: env where
  "hostile_env = example_env\<lparr>regex_test := (\<lambda>regex text. regex = ''ghost'' @ ws @ ''patient''),
     getSentiment := (\<lambda>tokens. Inr (- 0.5))\<rparr>"

text \<open>The same environment with a sentiment analyser that throws.\<close>

definition failing_env :: env where
  "failing_env = example_env\<lparr>getSentiment := (\<lambda>tokens. Inl (ExternalError ''sentiment''))\<rparr>"

definition example_metadata :: call_metadata where
  "example_metadata = \<lparr>callId = Some ''call-1'', agentId = Some ''agent-1'', userId = None\<rparr>"

text \<open>The billing batch of the specification's example.\<close>

definition example_batch :: "bill list" where
  "example_batch =
    [\<lparr>bill_id = ''b1'', amount = 100\<rparr>, \<lparr>bill_id = ''b2'', amount = 100\<rparr>,
     \<lparr>bill_id = ''b3'', amount = 105\<rparr>, \<lparr>bill_id = ''b4'', amount = 98\<rparr>,
     \<lparr>bill_id = ''b5'', amount = 100\<rparr>, \<lparr>bill_id = ''b6'', amount = 5000\<rparr>]"

text \<open>Enrollment helpers of which the identity check throws.\<close>

definition failing_helpers :: "(string, string, string, string) enrollment_helpers" where
  "failing_helpers =
    \<lparr>detectConsentViolations = (\<lambda>d. Inr []),
     assessIdentityRisks = (\<lambda>d. Inl (TypeError ''this.assessIdentityRisks is not a function'')),
     detectSuspiciousEnrollmentPatterns = (\<lambda>d. Inr []),
     generateEnrollmentRecommendations = (\<lambda>a. Inr [])\<rparr>"

section \<open>The risk score follows the formula\<close>

lemma type_part:
  "(case typeScores t of None \<Rightarrow> 10 | Some v \<Rightarrow> if v = 0 then 10 else v) = typeWeight t"
  by (cases t) (simp_all add: typeScores_def typeWeight_def)

lemma fin_part:
  "(if js_gt f 100000 then s + 25 else if js_gt f 10000 then s + 15
    else if js_gt f 1000 then s + 5 else s)
     = s + financialBand (case f of None \<Rightarrow> 0 | Some x \<Rightarrow> x)"
  by (cases f) (simp_all add: js_gt_def financialBand_def)

lemma aff_part:
  "(if js_gt n 100 then s + 20 else if js_gt n 10 then s + 10
    else if js_gt n 1 then s + 5 else s)
     = s + affectedBand (case n of None \<Rightarrow> 0 | Some x \<Rightarrow> x)"
  by (cases n) (simp_all add: js_gt_def affectedBand_def)

lemma calculateRiskScore_spec: "calculateRiskScore incident = spec_riskScore incident"
  unfolding calculateRiskScore_def spec_riskScore_def Let_def type_part fin_part aff_part
  by (cases "compliance_impact incident")
     (simp_all add: flag_def severityWeight_def severityScores_def add.assoc)

lemma spec_riskScore_cong:
  "severity a = severity b \<Longrightarrow> incident_type a = incident_type b \<Longrightarrow>
   financial_impact a = financial_impact b \<Longrightarrow> affected_count a = affected_count b \<Longrightarrow>
   compliance_impact a = compliance_impact b \<Longrightarrow> spec_riskScore a = spec_riskScore b"
  by (simp add: spec_riskScore_def flag_def)

lemma score_okI:
  "risk_score r = Some (calculateRiskScore a) \<Longrightarrow>
   severity a = severity r \<Longrightarrow> incident_type a = incident_type r \<Longrightarrow>
   financial_impact a = financial_impact r \<Longrightarrow> affected_count a = affected_count r \<Longrightarrow>
   compliance_impact a = compliance_impact r \<Longrightarrow> score_ok r"
  unfolding score_ok_def calculateRiskScore_spec
  by (simp add: spec_riskScore_cong[of a r])

subsection \<open>What the creation hook stores\<close>

lemma beforeCreate_fields:
  "incident_id (beforeCreate now v) = incident_id v"
  "severity (beforeCreate now v) = severity v"
  "incident_type (beforeCreate now v) = incident_type v"
  "status (beforeCreate now v) = status v"
  "financial_impact (beforeCreate now v) = financial_impact v"
  "affected_count (beforeCreate now v) = affected_count v"
  "compliance_impact (beforeCreate now v) = compliance_impact v"
  "incident_number (beforeCreate now v) =
     Some (toUpperCase (take 3 (type_name (incident_type v))) @ ''-''
           @ toUpperCase (toString36 now))"
  "risk_score (beforeCreate now v) =
     Some (calculateRiskScore (v\<lparr>incident_number :=
        Some (toUpperCase (take 3 (type_name (incident_type v))) @ ''-''
           @ toUpperCase (toString36 now)),
        timeline := Some
           [\<lparr>action = ''REPORTED'', timestamp = now,
             user = Some (reporter_or_system v), reason = None,
             new_severity = None, case_number = None, changes = None,
             details = Some (incident_type v, detection_method v)\<rparr>]\<rparr>))"
  "timeline (beforeCreate now v) = Some
           [\<lparr>action = ''REPORTED'', timestamp = now,
             user = Some (reporter_or_system v), reason = None,
             new_severity = None, case_number = None, changes = None,
             details = Some (incident_type v, detection_method v)\<rparr>]"
  by (simp_all add: beforeCreate_def Let_def reporter_or_system_def)

lemma beforeCreate_score_ok: "score_ok (beforeCreate now vals)"
  by (rule score_okI[OF beforeCreate_fields(9)]) (simp_all add: beforeCreate_fields)

subsection \<open>The changed attributes\<close>

lemma mem_changed:
  "n \<in> set (changed prev cur) \<longleftrightarrow> (n, True) \<in> set (attribute_diffs prev cur)"
  by (force simp: changed_def)

lemma changed_Nil_conv:
  "changed prev cur = [] \<longleftrightarrow> (\<forall>x \<in> set (attribute_diffs prev cur). \<not> snd x)"
  by (simp add: changed_def filter_empty_conv)

lemma status_changed_iff:
  "''status'' \<in> set (changed prev cur) \<longleftrightarrow> status prev \<noteq> status cur"
  by (simp add: mem_changed attribute_diffs_def)

lemma timeline_changed: "timeline prev \<noteq> timeline cur \<Longrightarrow> changed prev cur \<noteq> []"
  by (simp add: changed_Nil_conv attribute_diffs_def)

lemma severity_changed: "severity prev \<noteq> severity cur \<Longrightarrow> changed prev cur \<noteq> []"
  by (simp add: changed_Nil_conv attribute_diffs_def)

lemma changed_Nil:
  assumes "changed prev cur = []"
  shows "risk_score cur = risk_score prev" "severity cur = severity prev"
    "incident_type cur = incident_type prev" "financial_impact cur = financial_impact prev"
    "affected_count cur = affected_count prev" "compliance_impact cur = compliance_impact prev"
  using assms by (simp_all add: changed_Nil_conv attribute_diffs_def)

subsection \<open>What the update hook stores\<close>

lemma beforeUpdate_fields:
  assumes "chs \<noteq> []"
  shows "severity (beforeUpdate chs now inc) = severity inc"
    "incident_type (beforeUpdate chs now inc) = incident_type inc"
    "status (beforeUpdate chs now inc) = status inc"
    "incident_id (beforeUpdate chs now inc) = incident_id inc"
    "financial_impact (beforeUpdate chs now inc) = financial_impact inc"
    "affected_count (beforeUpdate chs now inc) = affected_count inc"
    "compliance_impact (beforeUpdate chs now inc) = compliance_impact inc"
    "oig_referral (beforeUpdate chs now inc) = oig_referral inc"
    "oig_case_number (beforeUpdate chs now inc) = oig_case_number inc"
    "regulatory_reported (beforeUpdate chs now inc) = regulatory_reported inc"
    "regulatory_report_date (beforeUpdate chs now inc) = regulatory_report_date inc"
  using assms by (simp_all add: beforeUpdate_def Let_def)

lemma beforeUpdate_timeline:
  assumes "chs \<noteq> []"
  shows "timeline_or_empty (beforeUpdate chs now inc) = timeline_or_empty inc @
     [\<lparr>action = (if ''status'' \<in> set chs
                   then ''STATUS_CHANGED_TO_'' @ status_name (status inc) else ''UPDATED''),
       timestamp = now, user = None, reason = None, new_severity = None,
       case_number = None, changes = Some chs, details = None\<rparr>]"
  using assms by (simp add: beforeUpdate_def Let_def timeline_or_empty_def)

lemma beforeUpdate_score_ok:
  assumes "chs \<noteq> []"
  shows "score_ok (beforeUpdate chs now inc)"
  using assms
  by (simp add: score_ok_def beforeUpdate_def Let_def calculateRiskScore_spec
        spec_riskScore_def flag_def)

lemma unchanged_score_ok:
  assumes "changed prev cur = []" and "score_ok prev"
  shows "score_ok cur"
  using assms(2) changed_Nil[OF assms(1)] spec_riskScore_cong[of cur prev]
  by (simp add: score_ok_def)

lemma save_Inr: "save db prev this t = Inr r \<Longrightarrow> r = beforeUpdate (changed prev this) t this"
  by (simp add: save_def Let_def split: option.splits)

lemma save_None: "save None prev this t = Inr (beforeUpdate (changed prev this) t this)"
  by (simp add: save_def Let_def)

lemma save_Some: "save (Some e) prev this t = Inl e"
  by (simp add: save_def Let_def)

lemma save_score_ok_changed:
  "save db prev this t = Inr r \<Longrightarrow> changed prev this \<noteq> [] \<Longrightarrow> score_ok r"
  by (drule save_Inr) (simp add: beforeUpdate_score_ok)

lemma save_score_ok:
  assumes "save db prev this t = Inr r" and "score_ok prev"
  shows "score_ok r"
proof (cases "changed prev this = []")
  case True
  then have "score_ok this" using assms(2) by (rule unchanged_score_ok)
  moreover have "r = this" using save_Inr[OF assms(1)] True by (simp add: beforeUpdate_def)
  ultimately show ?thesis by simp
next
  case False
  with assms(1) show ?thesis by (rule save_score_ok_changed)
qed

lemma example_incident_fields:
  "severity example_incident = HIGH" "incident_type example_incident = FRAUD"
  "status example_incident = REPORTED" "incident_id example_incident = 1"
  "financial_impact example_incident = Some 150000"
  "affected_count example_incident = Some 150"
  "compliance_impact example_incident = Some \<lparr>cms_violation = False,
      hipaa_violation = False, false_claims_act = True, anti_kickback = False\<rparr>"
  by (simp_all add: example_incident_def beforeCreate_fields example_report_def)

lemma example_incident_score: "risk_score example_incident = Some 100"
proof -
  have "score_ok example_incident"
    unfolding example_incident_def by (rule beforeCreate_score_ok)
  then show ?thesis
    by (simp add: score_ok_def spec_riskScore_def example_incident_fields severityWeight_def
        typeWeight_def financialBand_def affectedBand_def flag_def)
qed

lemma example_changed: "changed example_incident example_critical = [''severity'']"
  by (simp add: changed_def attribute_diffs_def example_critical_def example_incident_fields)

section \<open>The instance methods\<close>

lemma next_severity_if:
  "(if s = LOW then MEDIUM else if s = MEDIUM then HIGH else CRITICAL) = next_severity s"
  by (cases s) simp_all

lemma timeline_append_neq: "timeline a \<noteq> Some (timeline_or_empty a @ [e])"
  by (cases "timeline a") (simp_all add: timeline_or_empty_def)

lemma timeline_or_empty_update [simp]:
  "timeline_or_empty (a\<lparr>timeline := Some es\<rparr>) = es"
  by (simp add: timeline_or_empty_def)

lemma escalate_Inr:
  assumes "escalate db rsn u t t' this = Inr r"
  shows "severity r = next_severity (severity this)"
    and "status r = status this"
    and "timeline_or_empty r = timeline_or_empty this @
      [\<lparr>action = ''ESCALATED'', timestamp = t, user = Some u, reason = Some rsn,
        new_severity = Some (next_severity (severity this)), case_number = None,
        changes = None, details = None\<rparr>,
       \<lparr>action = ''UPDATED'', timestamp = t', user = None, reason = None,
        new_severity = None, case_number = None,
        changes = Some (changed this (this\<lparr>severity := next_severity (severity this),
           timeline := Some (timeline_or_empty this @
             [\<lparr>action = ''ESCALATED'', timestamp = t, user = Some u, reason = Some rsn,
               new_severity = Some (next_severity (severity this)), case_number = None,
               changes = None, details = None\<rparr>])\<rparr>)),
        details = None\<rparr>]"
    and "score_ok r"
proof -
  define e where "e = \<lparr>action = ''ESCALATED'', timestamp = t, user = Some u,
        reason = Some rsn, new_severity = Some (next_severity (severity this)),
        case_number = None, changes = None, details = None\<rparr>"
  define this2 where "this2 = this\<lparr>severity := next_severity (severity this),
           timeline := Some (timeline_or_empty this @ [e])\<rparr>"
  have "escalate db rsn u t t' this = save db this this2 t'"
    by (simp add: escalate_def Let_def next_severity_if this2_def e_def timeline_or_empty_def)
  with assms have r: "r = beforeUpdate (changed this this2) t' this2"
    by (simp add: save_Inr)
  have ne: "changed this this2 \<noteq> []"
    by (rule timeline_changed) (simp add: this2_def timeline_append_neq)
  have ns: "''status'' \<notin> set (changed this this2)"
    by (simp add: status_changed_iff this2_def)
  show "severity r = next_severity (severity this)"
    unfolding r beforeUpdate_fields[OF ne] by (simp add: this2_def)
  show "status r = status this"
    unfolding r beforeUpdate_fields[OF ne] by (simp add: this2_def)
  show "score_ok r"
    unfolding r using ne by (rule beforeUpdate_score_ok)
  show "timeline_or_empty r = timeline_or_empty this @
      [\<lparr>action = ''ESCALATED'', timestamp = t, user = Some u, reason = Some rsn,
        new_severity = Some (next_severity (severity this)), case_number = None,
        changes = None, details = None\<rparr>,
       \<lparr>action = ''UPDATED'', timestamp = t', user = None, reason = None,
        new_severity = None, case_number = None,
        changes = Some (changed this (this\<lparr>severity := next_severity (severity this),
           timeline := Some (timeline_or_empty this @
             [\<lparr>action = ''ESCALATED'', timestamp = t, user = Some u, reason = Some rsn,
               new_severity = Some (next_severity (severity this)), case_number = None,
               changes = None, details = None\<rparr>])\<rparr>)),
        details = None\<rparr>]"
    unfolding r beforeUpdate_timeline[OF ne] using ns
    by (simp add: this2_def e_def)
qed

lemma escalate_None_Inr: "\<exists>r. escalate None rsn u t t' this = Inr r"
  by (simp add: escalate_def Let_def save_None)

lemma escalate_Some: "escalate (Some err) rsn u t t' this = Inl err"
  by (simp add: escalate_def Let_def save_Some)

lemma referToOIG_Inr:
  assumes "referToOIG db cn u t t' this = Inr r"
  shows "status r = REFERRED_TO_OIG"
    and "severity r = severity this"
    and "oig_referral r" and "oig_case_number r = Some cn"
    and "regulatory_reported r" and "regulatory_report_date r = Some t"
    and "\<exists>chs. timeline_or_empty r = timeline_or_empty this @
      [\<lparr>action = ''REFERRED_TO_OIG'', timestamp = t, user = Some u, reason = None,
        new_severity = None, case_number = Some cn, changes = None, details = None\<rparr>,
       \<lparr>action = (if status this \<noteq> REFERRED_TO_OIG
                   then ''STATUS_CHANGED_TO_REFERRED_TO_OIG'' else ''UPDATED''),
        timestamp = t', user = None, reason = None, new_severity = None,
        case_number = None, changes = Some chs, details = None\<rparr>]"
    and "score_ok r"
proof -
  define e where "e = \<lparr>action = ''REFERRED_TO_OIG'', timestamp = t, user = Some u,
        reason = None, new_severity = None, case_number = Some cn, changes = None,
        details = None\<rparr>"
  define this2 where "this2 = this\<lparr>oig_referral := True, oig_case_number := Some cn,
       regulatory_reported := True, regulatory_report_date := Some t,
       status := REFERRED_TO_OIG, timeline := Some (timeline_or_empty this @ [e])\<rparr>"
  have "referToOIG db cn u t t' this = save db this this2 t'"
    by (simp add: referToOIG_def Let_def this2_def e_def timeline_or_empty_def)
  with assms have r: "r = beforeUpdate (changed this this2) t' this2"
    by (simp add: save_Inr)
  have ne: "changed this this2 \<noteq> []"
    by (rule timeline_changed) (simp add: this2_def timeline_append_neq)
  have st: "''status'' \<in> set (changed this this2) \<longleftrightarrow> status this \<noteq> REFERRED_TO_OIG"
    by (simp add: status_changed_iff this2_def)
  show "status r = REFERRED_TO_OIG" "severity r = severity this" "oig_referral r"
    "oig_case_number r = Some cn" "regulatory_reported r" "regulatory_report_date r = Some t"
    unfolding r beforeUpdate_fields[OF ne] by (simp_all add: this2_def)
  show "score_ok r"
    unfolding r using ne by (rule beforeUpdate_score_ok)
  show "\<exists>chs. timeline_or_empty r = timeline_or_empty this @
      [\<lparr>action = ''REFERRED_TO_OIG'', timestamp = t, user = Some u, reason = None,
        new_severity = None, case_number = Some cn, changes = None, details = None\<rparr>,
       \<lparr>action = (if status this \<noteq> REFERRED_TO_OIG
                   then ''STATUS_CHANGED_TO_REFERRED_TO_OIG'' else ''UPDATED''),
        timestamp = t', user = None, reason = None, new_severity = None,
        case_number = None, changes = Some chs, details = None\<rparr>]"
    unfolding r beforeUpdate_timeline[OF ne] st
    by (simp add: this2_def e_def)
qed

lemma referToOIG_None_Inr: "\<exists>r. referToOIG None cn u t t' this = Inr r"
  by (simp add: referToOIG_def Let_def save_None)

lemma referToOIG_Some: "referToOIG (Some err) cn u t t' this = Inl err"
  by (simp add: referToOIG_def Let_def save_Some)

lemma example_timeline:
  "timeline_or_empty example_incident =
     [\<lparr>action = ''REPORTED'', timestamp = 1000, user = Some ''emp-17'', reason = None,
       new_severity = None, case_number = None, changes = None,
       details = Some (FRAUD, MANUAL_REVIEW)\<rparr>]"
  by (simp add: timeline_or_empty_def example_incident_def beforeCreate_fields
      example_report_def reporter_or_system_def)

lemma example_critical_fields:
  "severity example_critical = CRITICAL"
  "timeline_or_empty example_critical = timeline_or_empty example_incident"
  by (simp_all add: example_critical_def timeline_or_empty_def)

lemma example_resolved_fields:
  "status example_resolved = RESOLVED"
  "timeline_or_empty example_resolved = timeline_or_empty example_incident"
  by (simp_all add: example_resolved_def timeline_or_empty_def)



text \<open>
  Claim C6 as stated fails in its last part: the ESCALATED entry has no field for the old
  severity. Escalating the example incident from HIGH and from CRITICAL writes the same
  entry.
\<close>

theorem escalate_entry_omits_old_severity:
  "severity example_incident = HIGH \<and> severity example_critical = CRITICAL
   \<and> timeline_or_empty (projr (escalate None ''repeat offender'' ''officer-1'' 1100 1101
         example_incident)) ! 1
      = \<lparr>action = ''ESCALATED'', timestamp = 1100, user = Some ''officer-1'',
         reason = Some ''repeat offender'', new_severity = Some CRITICAL,
         case_number = None, changes = None, details = None\<rparr>
   \<and> timeline_or_empty (projr (escalate None ''repeat offender'' ''officer-1'' 1100 1101
         example_critical)) ! 1
      = \<lparr>action = ''ESCALATED'', timestamp = 1100, user = Some ''officer-1'',
         reason = Some ''repeat offender'', new_severity = Some CRITICAL,
         case_number = None, changes = None, details = None\<rparr>"
proof -
  obtain r where r: "escalate None ''repeat offender'' ''officer-1'' 1100 1101 example_incident = Inr r"
    using escalate_None_Inr by blast
  obtain r' where r': "escalate None ''repeat offender'' ''officer-1'' 1100 1101 example_critical = Inr r'"
    using escalate_None_Inr by blast
  show ?thesis
    unfolding r r' sum.sel escalate_Inr(3)[OF r] escalate_Inr(3)[OF r']
    by (simp add: example_timeline example_critical_fields example_incident_fields)
qed

text \<open>
  Claim C6, amended. \<^verbatim>\<open>escalate\<close> succeeds whenever the row write does; it raises the
  severity one level along LOW, MEDIUM, HIGH, CRITICAL and leaves CRITICAL as it is; in
  both cases it appends an ESCALATED entry that records the new severity, the reason, the
  actor and the time, followed by the entry of the hook; the risk score is recomputed.
\<close>

theorem escalate_steps_severity:
  "(\<exists>r. escalate None rsn u t t' this = Inr r)
   \<and> (escalate db rsn u t t' this = Inr r \<longrightarrow>
        severity r = next_severity (severity this)
        \<and> (\<exists>e2. timeline_or_empty r = timeline_or_empty this @
             [\<lparr>action = ''ESCALATED'', timestamp = t, user = Some u, reason = Some rsn,
               new_severity = Some (severity r), case_number = None, changes = None,
               details = None\<rparr>, e2])
        \<and> score_ok r)"
proof (intro conjI impI)
  show "\<exists>r. escalate None rsn u t t' this = Inr r"
    by (rule escalate_None_Inr)
next
  assume a: "escalate db rsn u t t' this = Inr r"
  show "severity r = next_severity (severity this)"
    by (rule escalate_Inr(1)[OF a])
  show "score_ok r"
    by (rule escalate_Inr(4)[OF a])
  show "\<exists>e2. timeline_or_empty r = timeline_or_empty this @
             [\<lparr>action = ''ESCALATED'', timestamp = t, user = Some u, reason = Some rsn,
               new_severity = Some (severity r), case_number = None, changes = None,
               details = None\<rparr>, e2]"
    unfolding escalate_Inr(1)[OF a] escalate_Inr(3)[OF a] by blast
qed

text \<open>Escalating at the ceiling: the severity stays CRITICAL and two entries are added.\<close>

theorem escalate_steps_severity_witness:
  "\<exists>r. escalate None ''repeat offender'' ''officer-1'' 1100 1101 example_critical = Inr r
     \<and> severity example_critical = CRITICAL \<and> severity r = CRITICAL
     \<and> length (timeline_or_empty r) = length (timeline_or_empty example_critical) + 2
     \<and> score_ok r"
proof -
  note t = escalate_steps_severity[of "''repeat offender''" "''officer-1''" 1100 1101
      example_critical None]
  obtain r where r: "escalate None ''repeat offender'' ''officer-1'' 1100 1101 example_critical = Inr r"
    using t by blast
  note u = escalate_steps_severity[of "''repeat offender''" "''officer-1''" 1100 1101
      example_critical None r]
  from u r have "severity r = next_severity (severity example_critical)" "score_ok r"
    by blast+
  moreover from u r obtain e1 e2 where
    "timeline_or_empty r = timeline_or_empty example_critical @ [e1, e2]"
    by blast
  ultimately show ?thesis
    using r by (simp add: example_critical_fields)
qed

section \<open>Referral without a transition table\<close>

text \<open>
  Claim C2 as stated fails: the model has no table of allowed transitions.
  \<^verbatim>\<open>referToOIG\<close> on the resolved example incident returns no error, moves the status
  to REFERRED_TO_OIG and adds two timeline entries.
\<close>

theorem referToOIG_from_resolved:
  "status example_resolved = RESOLVED
   \<and> \<not> isl (referToOIG None ''OIG-7'' ''officer-1'' 1600 1601 example_resolved)
   \<and> status (projr (referToOIG None ''OIG-7'' ''officer-1'' 1600 1601 example_resolved))
       = REFERRED_TO_OIG
   \<and> length (timeline_or_empty
         (projr (referToOIG None ''OIG-7'' ''officer-1'' 1600 1601 example_resolved)))
       = length (timeline_or_empty example_resolved) + 2"
proof -
  obtain r where r: "referToOIG None ''OIG-7'' ''officer-1'' 1600 1601 example_resolved = Inr r"
    using referToOIG_None_Inr by blast
  obtain chs where tl: "timeline_or_empty r = timeline_or_empty example_resolved @
      [\<lparr>action = ''REFERRED_TO_OIG'', timestamp = 1600, user = Some ''officer-1'',
        reason = None, new_severity = None, case_number = Some ''OIG-7'', changes = None,
        details = None\<rparr>,
       \<lparr>action = (if status example_resolved \<noteq> REFERRED_TO_OIG
                   then ''STATUS_CHANGED_TO_REFERRED_TO_OIG'' else ''UPDATED''),
        timestamp = 1601, user = None, reason = None, new_severity = None,
        case_number = None, changes = Some chs, details = None\<rparr>]"
    using referToOIG_Inr(7)[OF r] by blast
  show ?thesis
    unfolding r sum.sel using referToOIG_Inr(1)[OF r]
    by (simp add: tl example_resolved_fields)
qed

text \<open>
  Claim C2, amended. \<^verbatim>\<open>referToOIG\<close> checks no transition: from every status it succeeds
  whenever the row write succeeds, and then the status is REFERRED_TO_OIG, the referral
  and the regulatory report are recorded, the timeline has two more entries and the risk
  score is recomputed. Its only failure is the error of the row write.
\<close>

theorem referToOIG_unguarded:
  "(\<exists>r. referToOIG None cn u t t' this = Inr r)
   \<and> (referToOIG db cn u t t' this = Inr r \<longrightarrow>
        status r = REFERRED_TO_OIG \<and> oig_referral r \<and> oig_case_number r = Some cn
        \<and> regulatory_reported r \<and> regulatory_report_date r = Some t
        \<and> length (timeline_or_empty r) = length (timeline_or_empty this) + 2
        \<and> score_ok r)
   \<and> referToOIG (Some err) cn u t t' this = Inl err"
proof (intro conjI impI)
  show "\<exists>r. referToOIG None cn u t t' this = Inr r"
    by (rule referToOIG_None_Inr)
  show "referToOIG (Some err) cn u t t' this = Inl err"
    by (rule referToOIG_Some)
next
  assume a: "referToOIG db cn u t t' this = Inr r"
  show "status r = REFERRED_TO_OIG" "oig_referral r" "oig_case_number r = Some cn"
    "regulatory_reported r" "regulatory_report_date r = Some t" "score_ok r"
    using referToOIG_Inr[OF a] by blast+
  show "length (timeline_or_empty r) = length (timeline_or_empty this) + 2"
    using referToOIG_Inr(7)[OF a] by auto
qed

text \<open>A referral of the closed example incident.\<close>

theorem referToOIG_unguarded_witness:
  "\<exists>r. referToOIG None ''OIG-7'' ''officer-1'' 1600 1601 (example_incident\<lparr>status := CLOSED\<rparr>)
          = Inr r
     \<and> status (example_incident\<lparr>status := CLOSED\<rparr>) = CLOSED
     \<and> status r = REFERRED_TO_OIG \<and> oig_referral r \<and> regulatory_reported r
     \<and> length (timeline_or_empty r) = 3 \<and> score_ok r"
proof -
  note t = referToOIG_unguarded[of "''OIG-7''" "''officer-1''" 1600 1601
      "example_incident\<lparr>status := CLOSED\<rparr>" None]
  obtain r where r: "referToOIG None ''OIG-7'' ''officer-1'' 1600 1601
      (example_incident\<lparr>status := CLOSED\<rparr>) = Inr r"
    using t by blast
  note u = referToOIG_unguarded[of "''OIG-7''" "''officer-1''" 1600 1601
      "example_incident\<lparr>status := CLOSED\<rparr>" None r]
  from u r have p: "status r = REFERRED_TO_OIG" "oig_referral r" "regulatory_reported r"
    "score_ok r"
    "length (timeline_or_empty r)
       = length (timeline_or_empty (example_incident\<lparr>status := CLOSED\<rparr>)) + 2"
    by blast+
  have l: "length (timeline_or_empty r) = 3"
    using p(5) example_timeline by (simp add: timeline_or_empty_def)
  have c: "status (example_incident\<lparr>status := CLOSED\<rparr>) = CLOSED"
    by simp
  show ?thesis
    by (rule exI[of _ r]) (intro conjI r c p(1) p(2) p(3) l p(4))
qed

section \<open>Confidence fusion\<close>





lemma generateRecommendations_cong:
  "riskLevel a = riskLevel b \<Longrightarrow> patterns a = patterns b \<Longrightarrow>
   confidence a = confidence b \<Longrightarrow> generateRecommendations a = generateRecommendations b"
  by (simp add: generateRecommendations_def)

lemma analyzeCallTranscript_Inr:
  assumes "analyzeCallTranscript e up tr md now c = (Inr a, c')"
  shows "\<exists>tokens sentiment features.
      tokenize e (preprocessText e tr) = Inr tokens
      \<and> getSentiment e tokens = Inr sentiment
      \<and> patternMatcher_loaded e
      \<and> extractTextFeatures e (preprocessText e tr) = Inr features
      \<and> patterns a = analyzeText e tr
      \<and> confidence a = min 1.0
           (fold (\<lambda>p acc. max acc (p_confidence p)) (analyzeText e tr) 0 * 0.5
            + c_confidence (classifyText features) * 0.4
            + (if sentiment < -0.3 then 0.2 else 0))
      \<and> riskLevel a = determineRiskLevel (confidence a)
      \<and> indicators a = generateIndicators (analyzeText e tr) sentiment (classifyText features)
      \<and> recommendations a = generateRecommendations a
      \<and> metadata a = \<lparr>callId = callId md, agentId = agentId md, userId = userId md,
                         analyzedAt = now, textLength = length tr\<rparr>
      \<and> c' = setWithExpiry up (''fwa_analysis:'' @ callId_or_unknown md) a 3600 c"
proof -
  let ?cl = "preprocessText e tr"
  obtain tokens where t: "tokenize e ?cl = Inr tokens"
    using assms by (cases "tokenize e ?cl") (simp_all add: analyzeCallTranscript_def Let_def)
  obtain sentiment where s: "getSentiment e tokens = Inr sentiment"
    using assms t
    by (cases "getSentiment e tokens") (simp_all add: analyzeCallTranscript_def Let_def)
  have l: "patternMatcher_loaded e"
    using assms t s
    by (cases "patternMatcher_loaded e") (simp_all add: analyzeCallTranscript_def Let_def)
  obtain features where f: "extractTextFeatures e ?cl = Inr features"
    using assms t s l
    by (cases "extractTextFeatures e ?cl") (simp_all add: analyzeCallTranscript_def Let_def)
  have pa: "a = projr (fst (analyzeCallTranscript e up tr md now c))"
    and pc: "c' = snd (analyzeCallTranscript e up tr md now c)"
    using assms by simp_all
  note d = analyzeCallTranscript_def Let_def t s l f
  have 1: "patterns a = analyzeText e tr"
    unfolding pa by (simp add: d)
  have 2: "confidence a = min 1.0
           (fold (\<lambda>p acc. max acc (p_confidence p)) (analyzeText e tr) 0 * 0.5
            + c_confidence (classifyText features) * 0.4
            + (if sentiment < -0.3 then 0.2 else 0))"
    unfolding pa by (simp add: d)
  have 3: "riskLevel a = determineRiskLevel (confidence a)"
    unfolding pa by (simp add: d)
  have 4: "indicators a
      = generateIndicators (analyzeText e tr) sentiment (classifyText features)"
    unfolding pa by (simp add: d)
  have 5: "recommendations a = generateRecommendations a"
    unfolding pa
    by (simp add: d split del: if_split, rule generateRecommendations_cong, simp_all)
  have 6: "metadata a = \<lparr>callId = callId md, agentId = agentId md, userId = userId md,
                         analyzedAt = now, textLength = length tr\<rparr>"
    unfolding pa by (simp add: d)
  have c': "c' = setWithExpiry up (''fwa_analysis:'' @ callId_or_unknown md) a 3600 c"
    unfolding pa pc by (simp add: d)
  show ?thesis
    using t s l f 1 2 3 4 5 6 c' by blast
qed


subsection \<open>The classifier of the source\<close>










subsection \<open>Success and failure of the steps\<close>

lemma analyzeCallTranscript_succeeds:
  assumes "tokenize e (preprocessText e tr) = Inr tokens"
    and "getSentiment e tokens = Inr sentiment"
    and "patternMatcher_loaded e"
    and "extractTextFeatures e (preprocessText e tr) = Inr features"
  shows "\<exists>a c'. analyzeCallTranscript e up tr md now c = (Inr a, c')"
  by (simp add: analyzeCallTranscript_def Let_def assms)

lemma analyzeCallTranscript_fails:
  "tokenize e (preprocessText e tr) = Inl err \<Longrightarrow>
     analyzeCallTranscript e up tr md now c = (Inl err, c)"
  "tokenize e (preprocessText e tr) = Inr tokens \<Longrightarrow> getSentiment e tokens = Inl err \<Longrightarrow>
     analyzeCallTranscript e up tr md now c = (Inl err, c)"
  "tokenize e (preprocessText e tr) = Inr tokens \<Longrightarrow> getSentiment e tokens = Inr sentiment \<Longrightarrow>
     patternMatcher_loaded e \<Longrightarrow> extractTextFeatures e (preprocessText e tr) = Inl err \<Longrightarrow>
     analyzeCallTranscript e up tr md now c = (Inl err, c)"
  by (simp_all add: analyzeCallTranscript_def Let_def)

lemma example_env_steps:
  "preprocessText example_env x = x"
  "tokenize example_env x = Inr [x]"
  "getSentiment example_env ts = Inr 0"
  "patternMatcher_loaded example_env"
  "stem example_env x = Inr x"
  by (simp_all add: example_env_def preprocessText_def)

lemma hostile_env_steps:
  "preprocessText hostile_env x = x"
  "tokenize hostile_env x = Inr [x]"
  "getSentiment hostile_env ts = Inr (- 0.5)"
  "patternMatcher_loaded hostile_env"
  "stem hostile_env x = Inr x"
  by (simp_all add: hostile_env_def example_env_def preprocessText_def)

lemma failing_env_steps:
  "preprocessText failing_env x = x"
  "tokenize failing_env x = Inr [x]"
  "getSentiment failing_env ts = Inl (ExternalError ''sentiment'')"
  by (simp_all add: failing_env_def example_env_def preprocessText_def)

lemma features_of_one_token:
  assumes "tokenize e x = Inr [y]" and "stem e y = Inr z"
  shows "\<exists>features. extractTextFeatures e x = Inr features"
  by (simp add: extractTextFeatures_def assms)



section \<open>Failures of extractors\<close>

lemma cache_does_not_matter:
  "fst (analyzeCallTranscript e up tr md now c) = fst (analyzeCallTranscript e up' tr md now c')"
proof (cases "tokenize e (preprocessText e tr)")
  case (Inl err)
  then show ?thesis by (simp add: analyzeCallTranscript_fails(1))
next
  case t: (Inr tokens)
  show ?thesis
  proof (cases "getSentiment e tokens")
    case (Inl err)
    with t show ?thesis by (simp add: analyzeCallTranscript_fails(2))
  next
    case s: (Inr sentiment)
    show ?thesis
    proof (cases "patternMatcher_loaded e")
      case False
      with t s show ?thesis by (simp add: analyzeCallTranscript_def Let_def)
    next
      case l: True
      show ?thesis
      proof (cases "extractTextFeatures e (preprocessText e tr)")
        case (Inl err)
        with t s l show ?thesis by (simp add: analyzeCallTranscript_fails(3))
      next
        case (Inr features)
        with t s l show ?thesis by (simp add: analyzeCallTranscript_def Let_def)
      qed
    qed
  qed
qed

lemma analyzeEnrollmentActivity_fails:
  "detectConsentViolations h d = Inl err \<Longrightarrow> analyzeEnrollmentActivity h d = Inl err"
  "detectConsentViolations h d = Inr cvs \<Longrightarrow> assessIdentityRisks h d = Inl err \<Longrightarrow>
     analyzeEnrollmentActivity h d = Inl err"
  "detectConsentViolations h d = Inr cvs \<Longrightarrow> assessIdentityRisks h d = Inr irs \<Longrightarrow>
     detectSuspiciousEnrollmentPatterns h d = Inl err \<Longrightarrow>
     analyzeEnrollmentActivity h d = Inl err"
  by (simp_all add: analyzeEnrollmentActivity_def)

text \<open>
  Claim C5 as stated fails: the \<^verbatim>\<open>catch\<close> blocks throw the exception again. With a
  sentiment analyser that throws, the analysis of a call returns that exception; with an
  identity check that throws, so does the analysis of an enrollment.
\<close>

theorem sentiment_failure_aborts_analysis:
  "analyzeCallTranscript failing_env True ''hello'' example_metadata 5000 Map.empty
     = (Inl (ExternalError ''sentiment''), Map.empty)
   \<and> analyzeEnrollmentActivity failing_helpers ''enrollment-1''
     = Inl (TypeError ''this.assessIdentityRisks is not a function'')"
proof -
  have "analyzeCallTranscript failing_env True ''hello'' example_metadata 5000 Map.empty
     = (Inl (ExternalError ''sentiment''), Map.empty)"
    by (rule analyzeCallTranscript_fails(2)) (simp_all add: failing_env_steps)
  moreover have "analyzeEnrollmentActivity failing_helpers ''enrollment-1''
     = Inl (TypeError ''this.assessIdentityRisks is not a function'')"
    by (simp add: analyzeEnrollmentActivity_def failing_helpers_def)
  ultimately show ?thesis by (rule conjI)
qed

text \<open>
  Claim C5, amended. An exception of the tokenizer, the sentiment analyser or the feature
  extraction aborts the analysis of a call, and an exception of a helper aborts the
  analysis of an enrollment: the exception is the result of the call and no analysis is
  returned. The analysis of a call returns a result when all its steps succeed. Only the
  cache is recovered locally: whether its write succeeds does not change the result.
\<close>

theorem extractor_failure_aborts:
  "(tokenize e (preprocessText e tr) = Inl err \<longrightarrow>
      analyzeCallTranscript e up tr md now c = (Inl err, c))
   \<and> (tokenize e (preprocessText e tr) = Inr tokens \<longrightarrow> getSentiment e tokens = Inl err \<longrightarrow>
      analyzeCallTranscript e up tr md now c = (Inl err, c))
   \<and> (tokenize e (preprocessText e tr) = Inr tokens \<longrightarrow> getSentiment e tokens = Inr sentiment
      \<longrightarrow> patternMatcher_loaded e \<longrightarrow> extractTextFeatures e (preprocessText e tr) = Inl err \<longrightarrow>
      analyzeCallTranscript e up tr md now c = (Inl err, c))
   \<and> (tokenize e (preprocessText e tr) = Inr tokens \<longrightarrow> getSentiment e tokens = Inr sentiment
      \<longrightarrow> patternMatcher_loaded e \<longrightarrow> extractTextFeatures e (preprocessText e tr) = Inr features
      \<longrightarrow> (\<exists>a c'. analyzeCallTranscript e up tr md now c = (Inr a, c')))
   \<and> fst (analyzeCallTranscript e False tr md now c)
       = fst (analyzeCallTranscript e True tr md now c)
   \<and> (detectConsentViolations h d = Inl err \<longrightarrow> analyzeEnrollmentActivity h d = Inl err)
   \<and> (detectConsentViolations h d = Inr cvs \<longrightarrow> assessIdentityRisks h d = Inl err \<longrightarrow>
      analyzeEnrollmentActivity h d = Inl err)
   \<and> (detectConsentViolations h d = Inr cvs \<longrightarrow> assessIdentityRisks h d = Inr irs \<longrightarrow>
      detectSuspiciousEnrollmentPatterns h d = Inl err \<longrightarrow>
      analyzeEnrollmentActivity h d = Inl err)"
  using analyzeCallTranscript_fails[of e tr] analyzeCallTranscript_succeeds[of e tr]
    cache_does_not_matter[of e False tr md now c True c]
    analyzeEnrollmentActivity_fails[of h d]
  by (intro conjI impI) blast+

text \<open>The failing sentiment analyser and the failing identity check.\<close>

theorem extractor_failure_aborts_witness:
  "tokenize failing_env (preprocessText failing_env ''hello'') = Inr [''hello'']
   \<and> getSentiment failing_env [''hello''] = Inl (ExternalError ''sentiment'')
   \<and> analyzeCallTranscript failing_env True ''hello'' example_metadata 5000 Map.empty
       = (Inl (ExternalError ''sentiment''), Map.empty)
   \<and> detectConsentViolations failing_helpers ''enrollment-1'' = Inr []
   \<and> assessIdentityRisks failing_helpers ''enrollment-1''
       = Inl (TypeError ''this.assessIdentityRisks is not a function'')
   \<and> analyzeEnrollmentActivity failing_helpers ''enrollment-1''
       = Inl (TypeError ''this.assessIdentityRisks is not a function'')"
proof -
  have t: "tokenize failing_env (preprocessText failing_env ''hello'') = Inr [''hello'']"
    by (simp add: failing_env_steps)
  have s: "getSentiment failing_env [''hello''] = Inl (ExternalError ''sentiment'')"
    by (simp add: failing_env_steps)
  have d: "detectConsentViolations failing_helpers ''enrollment-1'' = Inr []"
    by (simp add: failing_helpers_def)
  have i: "assessIdentityRisks failing_helpers ''enrollment-1''
       = Inl (TypeError ''this.assessIdentityRisks is not a function'')"
    by (simp add: failing_helpers_def)
  note th = extractor_failure_aborts[where e = failing_env and tr = "''hello''"
      and tokens = "[''hello'']" and err = "ExternalError ''sentiment''" and up = True
      and md = example_metadata and now = 5000 and c = Map.empty]
  note th' = extractor_failure_aborts[where h = failing_helpers and d = "''enrollment-1''"
      and cvs = "[]" and err = "TypeError ''this.assessIdentityRisks is not a function''"]
  have a: "analyzeCallTranscript failing_env True ''hello'' example_metadata 5000 Map.empty
       = (Inl (ExternalError ''sentiment''), Map.empty)"
    by (rule th[THEN conjunct2, THEN conjunct1, THEN mp, THEN mp, OF t s])
  have b: "analyzeEnrollmentActivity failing_helpers ''enrollment-1''
       = Inl (TypeError ''this.assessIdentityRisks is not a function'')"
    by (rule th'[THEN conjunct2, THEN conjunct2, THEN conjunct2, THEN conjunct2,
          THEN conjunct2, THEN conjunct2, THEN conjunct1, THEN mp, THEN mp, OF d i])
  show ?thesis
    by (intro conjI t s a d i b)
qed

section \<open>Repeated analysis\<close>

lemma analysis_repeat:
  assumes "analyzeCallTranscript e up1 tr md now1 c1 = (Inr a1, c1')"
  shows "\<exists>c2'. analyzeCallTranscript e up2 tr md now2 c2
      = (Inr (a1\<lparr>metadata := (metadata a1)\<lparr>analyzedAt := now2\<rparr>\<rparr>), c2')"
proof -
  from analyzeCallTranscript_Inr[OF assms]
  obtain tokens sentiment features where h:
    "tokenize e (preprocessText e tr) = Inr tokens"
    "getSentiment e tokens = Inr sentiment"
    "patternMatcher_loaded e"
    "extractTextFeatures e (preprocessText e tr) = Inr features"
    by blast
  have pa: "a1 = projr (fst (analyzeCallTranscript e up1 tr md now1 c1))"
    using assms by simp
  note d = analyzeCallTranscript_def Let_def h
  have "fst (analyzeCallTranscript e up2 tr md now2 c2)
      = Inr (a1\<lparr>metadata := (metadata a1)\<lparr>analyzedAt := now2\<rparr>\<rparr>)"
    unfolding pa
    by (simp add: d split del: if_split, rule generateRecommendations_cong, simp_all)
  then show ?thesis
    by (cases "analyzeCallTranscript e up2 tr md now2 c2") simp
qed


text \<open>
  Claim C8 as stated fails: the cache is written and never read, and each result carries
  the time of its own analysis. Two analyses of the same transcript with the same
  metadata, one millisecond apart and the second with the cache the first one left,
  return different results.
\<close>

theorem repeated_analysis_differs:
  "\<not> isl (fst (analyzeCallTranscript example_env True ''hello'' example_metadata 5000
         Map.empty))
   \<and> fst (analyzeCallTranscript example_env True ''hello'' example_metadata 5001
         (snd (analyzeCallTranscript example_env True ''hello'' example_metadata 5000
            Map.empty)))
     \<noteq> fst (analyzeCallTranscript example_env True ''hello'' example_metadata 5000
         Map.empty)"
proof -
  obtain features0 where
    "extractTextFeatures example_env (preprocessText example_env ''hello'') = Inr features0"
    using features_of_one_token[OF example_env_steps(2) example_env_steps(5)]
    unfolding example_env_steps(1) by blast
  from analyzeCallTranscript_succeeds[OF example_env_steps(2) example_env_steps(3)
      example_env_steps(4) this]
  obtain a c' where r: "analyzeCallTranscript example_env True ''hello''
      example_metadata 5000 Map.empty = (Inr a, c')"
    by blast
  obtain c2' where r2: "analyzeCallTranscript example_env True ''hello''
      example_metadata 5001 c'
        = (Inr (a\<lparr>metadata := (metadata a)\<lparr>analyzedAt := 5001\<rparr>\<rparr>), c2')"
    using analysis_repeat[OF r] by blast
  have m: "analyzedAt (metadata a) = 5000"
    using analyzeCallTranscript_Inr[OF r] by auto
  have "a\<lparr>metadata := (metadata a)\<lparr>analyzedAt := 5001\<rparr>\<rparr> \<noteq> a"
  proof
    assume "a\<lparr>metadata := (metadata a)\<lparr>analyzedAt := 5001\<rparr>\<rparr> = a"
    then have "analyzedAt (metadata (a\<lparr>metadata := (metadata a)\<lparr>analyzedAt := 5001\<rparr>\<rparr>))
        = analyzedAt (metadata a)"
      by simp
    with m show False by simp
  qed
  then show ?thesis
    unfolding r snd_conv fst_conv r2 by simp
qed

text \<open>
  Claim C8, amended. Two analyses of the same transcript with the same metadata agree in
  the confidence, the risk level, the pattern findings, the indicators and the
  recommendations, whatever the clock and the cache hold: when the first returns a
  result, the second returns that result with its own time of analysis.
\<close>

theorem analysis_repeatable_up_to_time:
  "analyzeCallTranscript e up1 tr md now1 c1 = (Inr a1, c1') \<longrightarrow>
     (\<exists>a2 c2'. analyzeCallTranscript e up2 tr md now2 c2 = (Inr a2, c2')
        \<and> a2 = a1\<lparr>metadata := (metadata a1)\<lparr>analyzedAt := now2\<rparr>\<rparr>
        \<and> confidence a2 = confidence a1 \<and> riskLevel a2 = riskLevel a1
        \<and> patterns a2 = patterns a1 \<and> indicators a2 = indicators a1
        \<and> recommendations a2 = recommendations a1)"
proof
  assume "analyzeCallTranscript e up1 tr md now1 c1 = (Inr a1, c1')"
  from analysis_repeat[OF this, of up2 now2 c2]
  obtain c2' where "analyzeCallTranscript e up2 tr md now2 c2
      = (Inr (a1\<lparr>metadata := (metadata a1)\<lparr>analyzedAt := now2\<rparr>\<rparr>), c2')"
    by blast
  then show "\<exists>a2 c2'. analyzeCallTranscript e up2 tr md now2 c2 = (Inr a2, c2')
        \<and> a2 = a1\<lparr>metadata := (metadata a1)\<lparr>analyzedAt := now2\<rparr>\<rparr>
        \<and> confidence a2 = confidence a1 \<and> riskLevel a2 = riskLevel a1
        \<and> patterns a2 = patterns a1 \<and> indicators a2 = indicators a1
        \<and> recommendations a2 = recommendations a1"
    by simp
qed

text \<open>The hostile call analysed twice, the second time without a cache.\<close>

theorem analysis_repeatable_up_to_time_witness:
  "\<exists>a1 c1' a2 c2'.
     analyzeCallTranscript hostile_env True ''ghost patient'' example_metadata 5000 Map.empty
       = (Inr a1, c1')
     \<and> analyzeCallTranscript hostile_env False ''ghost patient'' example_metadata 9000 c1'
       = (Inr a2, c2')
     \<and> confidence a2 = confidence a1 \<and> riskLevel a2 = riskLevel a1
     \<and> patterns a2 = patterns a1 \<and> indicators a2 = indicators a1
     \<and> recommendations a2 = recommendations a1
     \<and> analyzedAt (metadata a1) = 5000 \<and> analyzedAt (metadata a2) = 9000"
proof -
  obtain features0 where
    "extractTextFeatures hostile_env (preprocessText hostile_env ''ghost patient'')
       = Inr features0"
    using features_of_one_token[OF hostile_env_steps(2) hostile_env_steps(5)]
    unfolding hostile_env_steps(1) by blast
  from analyzeCallTranscript_succeeds[OF hostile_env_steps(2) hostile_env_steps(3)
      hostile_env_steps(4) this]
  obtain a1 c1' where r: "analyzeCallTranscript hostile_env True ''ghost patient''
      example_metadata 5000 Map.empty = (Inr a1, c1')"
    by blast
  from analysis_repeatable_up_to_time[of hostile_env True "''ghost patient''"
      example_metadata 5000 Map.empty a1 c1' False 9000 c1'] r
  obtain a2 c2' where r2:
    "analyzeCallTranscript hostile_env False ''ghost patient'' example_metadata 9000 c1'
       = (Inr a2, c2')"
    "a2 = a1\<lparr>metadata := (metadata a1)\<lparr>analyzedAt := 9000\<rparr>\<rparr>"
    "confidence a2 = confidence a1" "riskLevel a2 = riskLevel a1"
    "patterns a2 = patterns a1" "indicators a2 = indicators a1"
    "recommendations a2 = recommendations a1"
    by blast
  have m1: "analyzedAt (metadata a1) = 5000"
    using analyzeCallTranscript_Inr[OF r] by auto
  have m2: "analyzedAt (metadata a2) = 9000"
    by (simp add: r2(2))
  show ?thesis
    by (rule exI[of _ a1], rule exI[of _ c1'], rule exI[of _ a2], rule exI[of _ c2'])
       (intro conjI r r2(1) r2(3) r2(4) r2(5) r2(6) r2(7) m1 m2)
qed

section \<open>Creation and the stored row\<close>

lemma spec_riskScore_bounds: "0 \<le> spec_riskScore i" "spec_riskScore i \<le> 100"
proof -
  have "0 \<le> severityWeight (severity i)"
    by (cases "severity i") (simp_all add: severityWeight_def)
  moreover have "0 \<le> typeWeight (incident_type i)"
    by (simp add: typeWeight_def)
  moreover have "0 \<le> financialBand x" for x
    by (simp add: financialBand_def)
  moreover have "0 \<le> affectedBand n" for n
    by (simp add: affectedBand_def)
  moreover have "0 \<le> flag f i" for f
    by (simp add: flag_def split: option.splits)
  ultimately show "0 \<le> spec_riskScore i"
    by (simp add: spec_riskScore_def)
  show "spec_riskScore i \<le> 100"
    by (simp add: spec_riskScore_def)
qed

lemma int32_score: "int32 (Some (spec_riskScore i))"
  using spec_riskScore_bounds[of i] by (simp add: int32_def)

lemma store_row_Inr:
  assumes "store_row i = Inr row"
  shows "row = i\<lparr>financial_impact := map_option round2 (financial_impact i)\<rparr>"
  using assms by (simp add: store_row_def split: if_splits)

lemma store_row_fields:
  assumes "store_row i = Inr row"
  shows "risk_score row = risk_score i" "severity row = severity i"
    "incident_type row = incident_type i" "affected_count row = affected_count i"
    "compliance_impact row = compliance_impact i" "incident_id row = incident_id i"
    "incident_number row = incident_number i"
    "financial_impact row = map_option round2 (financial_impact i)"
  unfolding store_row_Inr[OF assms] by simp_all

lemma store_row_score_ok:
  assumes "store_row i = Inr row" and "score_ok i"
    and "map_option round2 (financial_impact i) = financial_impact i"
  shows "score_ok row"
proof -
  have "row = i"
    unfolding store_row_Inr[OF assms(1)] assms(3) by simp
  with assms(2) show ?thesis by simp
qed

lemma store_row_representable:
  assumes "int32 (affected_count i)" and "int32 (risk_score i)"
    and "financial_impact i = Some x" and "round2 x = x" and "\<bar>x\<bar> < 10 ^ 13"
  shows "store_row i = Inr i"
  using assms by (simp add: store_row_def)

lemma create_Inr:
  assumes "create now vals w = (Inr row, w')"
  shows "store_row (beforeCreate now vals) = Inr row"
    and "incident_number vals \<noteq> None"
    and "w' = w\<lparr>fwa_incidents := fwa_incidents w @ [row]\<rparr>"
  using assms by (auto simp: create_def Let_def split: if_splits sum.splits)

lemma create_row:
  assumes "create now vals w = (Inr row, w')"
  shows "risk_score row = Some (spec_riskScore (beforeCreate now vals))"
    and "row \<in> set (fwa_incidents w')"
    and "map_option round2 (financial_impact vals) = financial_impact vals \<Longrightarrow> score_ok row"
proof -
  note c = create_Inr[OF assms]
  have ok: "score_ok (beforeCreate now vals)"
    by (rule beforeCreate_score_ok)
  show "risk_score row = Some (spec_riskScore (beforeCreate now vals))"
    using ok by (simp add: store_row_fields(1)[OF c(1)] score_ok_def)
  show "row \<in> set (fwa_incidents w')"
    by (simp add: c(3))
  show "score_ok row" if "map_option round2 (financial_impact vals) = financial_impact vals"
    by (rule store_row_score_ok[OF c(1) ok]) (simp add: beforeCreate_fields that)
qed

lemma save_stored_score_ok:
  assumes "save db prev this t = Inr r"
    and "changed prev this \<noteq> [] \<or> score_ok prev"
    and "store_row r = Inr stored"
    and "map_option round2 (financial_impact this) = financial_impact this"
  shows "score_ok stored"
proof -
  have ok: "score_ok r"
    using assms(1,2) save_score_ok_changed save_score_ok by blast
  have "financial_impact r = financial_impact this"
  proof (cases "changed prev this = []")
    case True
    then show ?thesis using save_Inr[OF assms(1)] by (simp add: beforeUpdate_def)
  next
    case False
    then show ?thesis using save_Inr[OF assms(1)] by (simp add: beforeUpdate_fields)
  qed
  with assms(4) have "map_option round2 (financial_impact r) = financial_impact r"
    by simp
  with assms(3) ok show ?thesis by (rule store_row_score_ok)
qed

lemma round2_examples: "round2 1000.004 = 1000" "round2 150000 = 150000"
  by (simp_all add: round2_def)

lemma small_report_fields:
  "incident_number small_report = Some ''PENDING-1''" "incident_id small_report = 1"
  "severity small_report = LOW" "incident_type small_report = WASTE"
  "financial_impact small_report = Some 1000.004" "affected_count small_report = Some 0"
  "compliance_impact small_report = None" "risk_score small_report = Some 7"
  by (simp_all add: small_report_def example_report_def)

lemma small_hook_score: "risk_score (beforeCreate 1000 small_report) = Some 20"
  using beforeCreate_score_ok[of 1000 small_report]
  by (simp add: score_ok_def spec_riskScore_def beforeCreate_fields small_report_fields
      severityWeight_def typeWeight_def financialBand_def affectedBand_def flag_def)

lemma small_store:
  "store_row (beforeCreate 1000 small_report)
     = Inr ((beforeCreate 1000 small_report)\<lparr>financial_impact := Some 1000\<rparr>)"
proof -
  have fi: "financial_impact (beforeCreate 1000 small_report) = Some 1000.004"
    and ac: "affected_count (beforeCreate 1000 small_report) = Some 0"
    by (simp_all add: beforeCreate_fields small_report_fields)
  show ?thesis
    by (simp add: store_row_def int32_def small_hook_score fi ac round2_def)
qed

text \<open>
  Claim C1 as stated fails for the stored row: the hook scores the financial impact as
  the caller passed it, and the column then rounds it to two decimals. The report of a
  waste with severity LOW and impact 1000.004 is stored with impact 1000 and risk score
  20, where the formula gives 15 for the stored attributes.
\<close>

theorem stored_score_off_formula:
  "financial_impact small_report = Some 1000.004
   \<and> create 1000 small_report empty_world
      = (Inr ((beforeCreate 1000 small_report)\<lparr>financial_impact := Some 1000\<rparr>),
         \<lparr>fwa_incidents = [(beforeCreate 1000 small_report)\<lparr>financial_impact := Some 1000\<rparr>],
           critical_alerts = []\<rparr>)
   \<and> risk_score ((beforeCreate 1000 small_report)\<lparr>financial_impact := Some 1000\<rparr>) = Some 20
   \<and> spec_riskScore ((beforeCreate 1000 small_report)\<lparr>financial_impact := Some 1000\<rparr>) = 15"
proof -
  have c: "create 1000 small_report empty_world
      = (Inr ((beforeCreate 1000 small_report)\<lparr>financial_impact := Some 1000\<rparr>),
         \<lparr>fwa_incidents = [(beforeCreate 1000 small_report)\<lparr>financial_impact := Some 1000\<rparr>],
           critical_alerts = []\<rparr>)"
    by (simp add: create_def Let_def small_report_fields small_store empty_world_def)
  have s: "spec_riskScore ((beforeCreate 1000 small_report)\<lparr>financial_impact := Some 1000\<rparr>) = 15"
    by (simp add: spec_riskScore_def beforeCreate_fields small_report_fields
      severityWeight_def typeWeight_def financialBand_def affectedBand_def flag_def)
  show ?thesis
    by (intro conjI small_report_fields(5) c s) (simp add: small_hook_score)
qed

text \<open>
  Claim C1, amended. The risk score that a hook stores equals the formula of the
  specification, \<open>min 100\<close> of the sum of the severity weight, the type weight, the
  financial band, the band of the affected count and the four compliance flag weights,
  evaluated on the attributes of the instance as the hook sees them: after the creation
  hook, whatever risk score the caller supplied, after every save that changes an
  attribute, and after a save without changes of an incident whose score was right. The
  row that \<^verbatim>\<open>create\<close> or such a save stores has that score, and it satisfies the formula on
  its own attributes whenever the financial impact is a value of the column, a number of
  at most two decimals.
\<close>

theorem riskScore_formula_at_hook:
  "score_ok (beforeCreate now vals)
   \<and> (create now vals w = (Inr row, w') \<longrightarrow>
        risk_score row = Some (spec_riskScore (beforeCreate now vals))
        \<and> row \<in> set (fwa_incidents w')
        \<and> (map_option round2 (financial_impact vals) = financial_impact vals \<longrightarrow> score_ok row))
   \<and> (save db prev this t = Inr r \<longrightarrow> changed prev this \<noteq> [] \<longrightarrow> score_ok r)
   \<and> (save db prev this t = Inr r \<longrightarrow> score_ok prev \<longrightarrow> score_ok r)
   \<and> (save db prev this t = Inr r \<longrightarrow> changed prev this \<noteq> [] \<or> score_ok prev \<longrightarrow>
        store_row r = Inr stored \<longrightarrow>
        map_option round2 (financial_impact this) = financial_impact this \<longrightarrow> score_ok stored)"
  using beforeCreate_score_ok[of now vals] create_row[of now vals w row w']
    save_score_ok_changed[of db prev this t r] save_score_ok[of db prev this t r]
    save_stored_score_ok[of db prev this t r stored]
  by (intro conjI impI) blast+

lemma cents_report_fields:
  "incident_number cents_report = Some ''PENDING-1''" "incident_id cents_report = 1"
  "severity cents_report = LOW" "incident_type cents_report = WASTE"
  "financial_impact cents_report = Some 1000.5" "affected_count cents_report = Some 0"
  "compliance_impact cents_report = None" "risk_score cents_report = Some 7"
  by (simp_all add: cents_report_def small_report_def example_report_def)

lemma cents_hook_score: "risk_score (beforeCreate 1000 cents_report) = Some 20"
  using beforeCreate_score_ok[of 1000 cents_report]
  by (simp add: score_ok_def spec_riskScore_def beforeCreate_fields cents_report_fields
      severityWeight_def typeWeight_def financialBand_def affectedBand_def flag_def)

lemma cents_store: "store_row (beforeCreate 1000 cents_report) = Inr (beforeCreate 1000 cents_report)"
proof (rule store_row_representable)
  show "int32 (affected_count (beforeCreate 1000 cents_report))"
    by (simp add: beforeCreate_fields cents_report_fields int32_def)
  show "int32 (risk_score (beforeCreate 1000 cents_report))"
    by (simp add: cents_hook_score int32_def)
  show "financial_impact (beforeCreate 1000 cents_report) = Some 1000.5"
    by (simp add: beforeCreate_fields cents_report_fields)
  show "round2 1000.5 = 1000.5"
    by (simp add: round2_def)
  show "\<bar>1000.5 :: real\<bar> < 10 ^ 13"
    by simp
qed

lemma cents_create:
  "create 1000 cents_report empty_world
     = (Inr (beforeCreate 1000 cents_report),
        \<lparr>fwa_incidents = [beforeCreate 1000 cents_report], critical_alerts = []\<rparr>)"
  by (simp add: create_def Let_def cents_report_fields cents_store empty_world_def)

lemma cents_changed:
  "changed (beforeCreate 1000 cents_report) ((beforeCreate 1000 cents_report)\<lparr>severity := MEDIUM\<rparr>)
     = [''severity'']"
  by (simp add: changed_def attribute_diffs_def beforeCreate_fields(2) cents_report_fields)

text \<open>
  The report of a waste with severity LOW and impact 1000.50, whose caller supplies the
  risk score 7, is stored with score 20; a save that raises the severity to MEDIUM
  stores 35.
\<close>

theorem riskScore_formula_at_hook_witness:
  "risk_score cents_report = Some 7
   \<and> create 1000 cents_report empty_world
      = (Inr (beforeCreate 1000 cents_report),
         \<lparr>fwa_incidents = [beforeCreate 1000 cents_report], critical_alerts = []\<rparr>)
   \<and> risk_score (beforeCreate 1000 cents_report) = Some 20
   \<and> score_ok (beforeCreate 1000 cents_report)
   \<and> save None (beforeCreate 1000 cents_report)
        ((beforeCreate 1000 cents_report)\<lparr>severity := MEDIUM\<rparr>) 2000
      = Inr (beforeUpdate [''severity''] 2000
          ((beforeCreate 1000 cents_report)\<lparr>severity := MEDIUM\<rparr>))
   \<and> risk_score (beforeUpdate [''severity''] 2000
          ((beforeCreate 1000 cents_report)\<lparr>severity := MEDIUM\<rparr>)) = Some 35
   \<and> score_ok (beforeUpdate [''severity''] 2000
          ((beforeCreate 1000 cents_report)\<lparr>severity := MEDIUM\<rparr>))"
proof -
  let ?row = "beforeCreate 1000 cents_report"
  let ?cur = "?row\<lparr>severity := MEDIUM\<rparr>"
  let ?r = "beforeUpdate [''severity''] 2000 ?cur"
  let ?w = "\<lparr>fwa_incidents = [?row], critical_alerts = []\<rparr>"
  have s: "save None ?row ?cur 2000 = Inr ?r"
    by (simp add: save_None cents_changed)
  have n: "changed ?row ?cur \<noteq> []"
    by (simp add: cents_changed)
  have rep: "map_option round2 (financial_impact cents_report) = financial_impact cents_report"
    by (simp add: cents_report_fields round2_def)
  note t = riskScore_formula_at_hook[of 1000 cents_report empty_world ?row ?w
      None ?row ?cur 2000 ?r]
  have ok1: "score_ok ?row"
    using t cents_create rep by blast
  have ok2: "score_ok ?r"
    using t s n by blast
  have f: "severity ?r = MEDIUM" "incident_type ?r = WASTE"
    "financial_impact ?r = Some 1000.5" "affected_count ?r = Some 0"
    "compliance_impact ?r = None"
    by (simp_all add: beforeUpdate_fields beforeCreate_fields cents_report_fields)
  have sc: "risk_score ?r = Some 35"
    using ok2 unfolding score_ok_def
    by (simp add: spec_riskScore_def f severityWeight_def typeWeight_def financialBand_def
        affectedBand_def flag_def)
  show ?thesis
    by (intro conjI cents_report_fields(8) cents_create cents_hook_score ok1 s sc ok2)
qed

section \<open>The alert path\<close>



lemma mapRiskToSeverity_id: "mapRiskToSeverity l = l"
  by (cases l) (simp_all add: mapRiskToSeverity_def)





section \<open>Incident numbers\<close>

lemma prefix_FRAUD: "toUpperCase ''FRA'' = ''FRA''"
  by (simp add: toUpperCase_def upper_char_def char_of_def bit_0)

lemma stamp_example: "toUpperCase (toString36 1700000000000) = ''LOYW3V28''"
  by (simp add: toString36.simps digit36_def toUpperCase_def upper_char_def char_of_def bit_0)

lemma number_example:
  "incident_type v = FRAUD \<Longrightarrow>
   incident_number (beforeCreate 1700000000000 v) = Some ''FRA-LOYW3V28''"
  by (simp add: beforeCreate_fields prefix_FRAUD stamp_example)

lemma example_report_store:
  assumes "incident_type v = FRAUD" and "severity v = HIGH"
    and "financial_impact v = Some 150000" and "affected_count v = Some 150"
  shows "store_row (beforeCreate now v) = Inr (beforeCreate now v)"
proof (rule store_row_representable)
  show "int32 (affected_count (beforeCreate now v))"
    by (simp add: beforeCreate_fields assms int32_def)
  show "int32 (risk_score (beforeCreate now v))"
    using beforeCreate_score_ok[of now v] int32_score[of "beforeCreate now v"]
    by (simp add: score_ok_def)
  show "financial_impact (beforeCreate now v) = Some 150000"
    by (simp add: beforeCreate_fields assms)
  show "round2 150000 = 150000"
    by (simp add: round2_def)
  show "\<bar>150000 :: real\<bar> < 10 ^ 13"
    by simp
qed

text \<open>
  Claim C9, evaluated on two reports of a fraud that are created in the same millisecond
  and differ in their primary key and in the placeholder number their caller supplied:
  the hook gives both the number FRA-LOYW3V28, and the unique index rejects the second
  insert.
\<close>

theorem same_millisecond_same_number:
  "incident_id example_report
     \<noteq> incident_id (example_report\<lparr>incident_id := 2, incident_number := Some ''PENDING-2''\<rparr>)
   \<and> incident_number (beforeCreate 1700000000000 example_report) = Some ''FRA-LOYW3V28''
   \<and> incident_number (beforeCreate 1700000000000
         (example_report\<lparr>incident_id := 2, incident_number := Some ''PENDING-2''\<rparr>))
       = Some ''FRA-LOYW3V28''
   \<and> fst (create 1700000000000 example_report empty_world)
       = Inr (beforeCreate 1700000000000 example_report)
   \<and> fst (create 1700000000000
         (example_report\<lparr>incident_id := 2, incident_number := Some ''PENDING-2''\<rparr>)
         (snd (create 1700000000000 example_report empty_world)))
       = Inl (UniqueConstraintError ''incident_number'')"
proof -
  let ?v2 = "example_report\<lparr>incident_id := 2, incident_number := Some ''PENDING-2''\<rparr>"
  have t: "incident_type example_report = FRAUD" "incident_type ?v2 = FRAUD"
      "incident_id example_report = 1" "incident_id ?v2 = 2"
      "incident_number example_report = Some ''PENDING-1''"
      "incident_number ?v2 = Some ''PENDING-2''"
      "severity example_report = HIGH" "severity ?v2 = HIGH"
      "financial_impact example_report = Some 150000" "financial_impact ?v2 = Some 150000"
      "affected_count example_report = Some 150" "affected_count ?v2 = Some 150"
    by (simp_all add: example_report_def)
  have n1: "incident_number (beforeCreate 1700000000000 example_report) = Some ''FRA-LOYW3V28''"
    by (rule number_example[OF t(1)])
  have n2: "incident_number (beforeCreate 1700000000000 ?v2) = Some ''FRA-LOYW3V28''"
    by (rule number_example[OF t(2)])
  have s1: "store_row (beforeCreate 1700000000000 example_report)
      = Inr (beforeCreate 1700000000000 example_report)"
    by (rule example_report_store[OF t(1) t(7) t(9) t(11)])
  have s2: "store_row (beforeCreate 1700000000000 ?v2) = Inr (beforeCreate 1700000000000 ?v2)"
    by (rule example_report_store[OF t(2) t(8) t(10) t(12)])
  have c1: "create 1700000000000 example_report empty_world
      = (Inr (beforeCreate 1700000000000 example_report),
         \<lparr>fwa_incidents = [beforeCreate 1700000000000 example_report],
           critical_alerts = []\<rparr>)"
    by (simp add: create_def Let_def t(5) s1 empty_world_def)
  have c2: "fst (create 1700000000000 ?v2
         \<lparr>fwa_incidents = [beforeCreate 1700000000000 example_report],
           critical_alerts = []\<rparr>)
       = Inl (UniqueConstraintError ''incident_number'')"
    by (simp add: create_def Let_def t(6) s2 n1 n2 beforeCreate_fields(1) t(3) t(4))
  show ?thesis
    unfolding c1 fst_conv snd_conv
    by (intro conjI n1 n2 c2 refl) (simp add: t(3))
qed

section \<open>The billing batch of the specification\<close>

lemma num_gt_sqrt:
  assumes "0 < v"
  shows "num_gt (js_abs_div d (sqrt v)) 3 \<longleftrightarrow> 9 * v < d\<^sup>2"
proof -
  have pos: "0 < sqrt v" using assms by simp
  have "num_gt (js_abs_div d (sqrt v)) 3 \<longleftrightarrow> 3 < \<bar>d\<bar> / sqrt v"
    using pos by (simp add: num_gt_def js_abs_div_def)
  also have "\<dots> \<longleftrightarrow> 3 * sqrt v < \<bar>d\<bar>"
    using pos by (simp add: pos_less_divide_eq)
  also have "\<dots> \<longleftrightarrow> sqrt (9 * v) < sqrt (d\<^sup>2)"
    by (simp add: real_sqrt_mult)
  also have "\<dots> \<longleftrightarrow> 9 * v < d\<^sup>2"
    by (rule real_sqrt_less_iff)
  finally show ?thesis .
qed

lemma example_batch_amounts: "map amount example_batch = [100, 100, 105, 98, 100, 5000]"
  by (simp add: example_batch_def)

lemma example_batch_length: "length example_batch = 6"
  by (simp add: example_batch_def)

lemma batch_mean:
  "foldl (\<lambda>a b. a + b) 0 (map amount example_batch) / real (length (map amount example_batch))
     = 5503 / 6"
  by (simp add: example_batch_def)

lemma batch_variance:
  "foldl (\<lambda>a b. a + (b - 5503 / 6) ^ 2) 0 (map amount example_batch)
       / real (length (map amount example_batch))
     = 120020765 / 36"
  by (simp add: example_batch_def power2_eq_square)

lemma example_batch_stats:
  "\<exists>st. calculateBillingStatistics example_batch = Some st
     \<and> st_count st = 6 \<and> mean st = 5503 / 6 \<and> stdDev st = sqrt (120020765 / 36)"
  unfolding calculateBillingStatistics_def Let_def batch_mean batch_variance
  by (simp add: example_batch_length)

lemma example_batch_zscores:
  assumes "calculateBillingStatistics example_batch = Some st"
    and "b \<in> set example_batch"
  shows "\<not> num_gt (zScore_of (Some st) b) 3"
proof -
  from example_batch_stats assms(1)
  have st: "mean st = 5503 / 6" "stdDev st = sqrt (120020765 / 36)"
    by auto
  have "amount b \<in> {100, 105, 98, 5000}"
    using assms(2) by (auto simp: example_batch_def)
  then have "\<not> 9 * (120020765 / 36) < (amount b - 5503 / 6)\<^sup>2"
    by (elim insertE emptyE) (simp_all add: power2_eq_square)
  then show ?thesis
    by (simp add: zScore_of_def st num_gt_sqrt)
qed

lemma example_batch_anomalies:
  "detectBillingAnomalies example_batch (calculateBillingStatistics example_batch) = []"
proof -
  obtain st where st: "calculateBillingStatistics example_batch = Some st"
    using example_batch_stats by blast
  have "filter (\<lambda>b. num_gt (zScore_of (Some st) b) 3) example_batch = []"
    unfolding filter_empty_conv using example_batch_zscores[OF st] by blast
  then show ?thesis
    by (simp add: detectBillingAnomalies_def st)
qed

lemma upt_6: "[0..<6] = [0, 1, 2, 3, 4, 5]"
  by (simp add: numeral_eq_Suc)

lemma example_batch_duplicates:
  "map fst (filter (\<lambda>(amt, index). indexOf [100, 100, 105, 98, 100, 5000 :: real] amt \<noteq> Some index)
      (zip [100, 100, 105, 98, 100, 5000] [0..<6])) = [100, 100]"
  unfolding upt_6 by simp

lemma example_batch_patterns:
  "detectBillingPatterns example_batch =
     [\<lparr>category = None, pattern_type = Some ''DUPLICATE_AMOUNTS'', pattern_source = None,
       match_count = Some 2, p_confidence = 0.8\<rparr>]"
  unfolding detectBillingPatterns_def Let_def example_batch_amounts
  by (simp add: example_batch_duplicates del: upt_rec_numeral)

lemma analyzeBillingPattern_Inr:
  assumes "analyzeBillingPattern gen billingData = Inr a"
  shows "anomalies a = detectBillingAnomalies billingData (calculateBillingStatistics billingData)"
    and "patterns a = detectBillingPatterns billingData"
    and "statisticalAnalysis a = calculateBillingStatistics billingData"
proof -
  let ?A = "\<lambda>recs. \<lparr>confidence = confidence a, riskLevel = riskLevel a,
      patterns = detectBillingPatterns billingData, recommendations = recs,
      anomalies = detectBillingAnomalies billingData (calculateBillingStatistics billingData),
      statisticalAnalysis = calculateBillingStatistics billingData\<rparr>"
  have "\<exists>recs. a = ?A recs"
    using assms
    by (simp add: analyzeBillingPattern_def Let_def split: sum.splits) auto
  then obtain recs where a: "a = ?A recs" by blast
  show "anomalies a = detectBillingAnomalies billingData (calculateBillingStatistics billingData)"
    by (subst a) simp
  show "patterns a = detectBillingPatterns billingData"
    by (subst a) simp
  show "statisticalAnalysis a = calculateBillingStatistics billingData"
    by (subst a) simp
qed

lemma billing_batch_incident_type:
  assumes "patterns a = detectBillingPatterns example_batch"
  shows "determineIncidentType a = SUSPICIOUS_ACTIVITY"
  by (simp add: determineIncidentType_def assms example_batch_patterns)

text \<open>
  Claim C4 as stated fails: in a batch of six amounts no z-score exceeds the square root
  of 5, so the item of 5000 is not an outlier beyond 3 and the batch
  [100, 100, 105, 98, 100, 5000] has no anomaly; the duplicate check counts the two
  repetitions of 100, not three items.
\<close>

theorem batch_has_no_outlier:
  "map amount example_batch = [100, 100, 105, 98, 100, 5000]
   \<and> amount (example_batch ! 5) = 5000
   \<and> \<not> num_gt (zScore_of (calculateBillingStatistics example_batch) (example_batch ! 5)) 3
   \<and> detectBillingAnomalies example_batch (calculateBillingStatistics example_batch) = []
   \<and> map match_count (detectBillingPatterns example_batch) = [Some 2]"
proof -
  obtain st where st: "calculateBillingStatistics example_batch = Some st"
    using example_batch_stats by blast
  have m: "example_batch ! 5 \<in> set example_batch"
    by (rule nth_mem) (simp add: example_batch_length)
  have z: "\<not> num_gt (zScore_of (calculateBillingStatistics example_batch) (example_batch ! 5)) 3"
    unfolding st by (rule example_batch_zscores[OF st m])
  have a5: "amount (example_batch ! 5) = 5000"
    by (simp add: example_batch_def)
  have p: "map match_count (detectBillingPatterns example_batch) = [Some 2]"
    by (simp add: example_batch_patterns)
  show ?thesis
    by (intro conjI example_batch_amounts a5 z example_batch_anomalies p)
qed

text \<open>
  Claim C4, amended. For the billing batch [100, 100, 105, 98, 100, 5000] the mean is
  5503/6, about 917; no item has a z-score of magnitude above 3, the item of 5000
  included, so the detection of anomalies reports no statistical outlier; and the
  duplicate check reports one finding DUPLICATE_AMOUNTS with count 2 and confidence 0.8.
\<close>

theorem billing_batch_findings:
  "(\<exists>st. calculateBillingStatistics example_batch = Some st \<and> mean st = 5503 / 6
       \<and> (\<forall>b \<in> set example_batch. \<not> num_gt (zScore_of (Some st) b) 3))
   \<and> detectBillingAnomalies example_batch (calculateBillingStatistics example_batch) = []
   \<and> detectBillingPatterns example_batch =
       [\<lparr>category = None, pattern_type = Some ''DUPLICATE_AMOUNTS'', pattern_source = None,
         match_count = Some 2, p_confidence = 0.8\<rparr>]"
proof (intro conjI)
  obtain st where st: "calculateBillingStatistics example_batch = Some st"
    "mean st = 5503 / 6"
    using example_batch_stats by blast
  show "\<exists>st. calculateBillingStatistics example_batch = Some st \<and> mean st = 5503 / 6
       \<and> (\<forall>b \<in> set example_batch. \<not> num_gt (zScore_of (Some st) b) 3)"
    using st example_batch_zscores[OF st(1)] by blast
  show "detectBillingAnomalies example_batch (calculateBillingStatistics example_batch) = []"
    by (rule example_batch_anomalies)
  show "detectBillingPatterns example_batch =
       [\<lparr>category = None, pattern_type = Some ''DUPLICATE_AMOUNTS'', pattern_source = None,
         match_count = Some 2, p_confidence = 0.8\<rparr>]"
    by (rule example_batch_patterns)
qed

text \<open>The item of 5000 is the sixth of the batch.\<close>

theorem billing_batch_findings_witness:
  "example_batch ! 5 \<in> set example_batch
   \<and> amount (example_batch ! 5) = 5000
   \<and> \<not> num_gt (zScore_of (calculateBillingStatistics example_batch) (example_batch ! 5)) 3
   \<and> map pattern_type (detectBillingPatterns example_batch) = [Some ''DUPLICATE_AMOUNTS'']"
proof -
  note t = billing_batch_findings
  have m: "example_batch ! 5 \<in> set example_batch"
    by (rule nth_mem) (simp add: example_batch_length)
  have a5: "amount (example_batch ! 5) = 5000"
    by (simp add: example_batch_def)
  from t obtain st where st: "calculateBillingStatistics example_batch = Some st"
    "\<forall>b \<in> set example_batch. \<not> num_gt (zScore_of (Some st) b) 3"
    by blast
  have z: "\<not> num_gt (zScore_of (calculateBillingStatistics example_batch) (example_batch ! 5)) 3"
    unfolding st(1) using st(2) m by blast
  have p: "map pattern_type (detectBillingPatterns example_batch) = [Some ''DUPLICATE_AMOUNTS'']"
    unfolding t[THEN conjunct2, THEN conjunct2] by simp
  show ?thesis
    by (intro conjI m a5 z p)
qed

end
